theory Spec2Isabelle
  imports Complex_Main "HOL-Library.Monad_Syntax"
begin

section \<open>Numbers, vectors and errors\<close>

text \<open>
  The conversions between Keplerian elements and Unified State Model (USM) elements of
  \<^verbatim>\<open>unifiedStateModelElementConversions.cpp\<close> are embedded as HOL functions, in two
  readings of the C++ type \<^verbatim>\<open>double\<close>.

  \<^item> In the first reading a \<^verbatim>\<open>double\<close> is idealised as a \<^typ>\<open>real\<close>: rounding,
    infinities, NaN and signed zeros are not modelled. \<^verbatim>\<open>std::sqrt\<close>, \<^verbatim>\<open>std::sin\<close>,
    \<^verbatim>\<open>std::cos\<close>, \<^verbatim>\<open>std::acos\<close> and \<^verbatim>\<open>std::fabs\<close> are \<^const>\<open>sqrt\<close>, \<^const>\<open>sin\<close>,
    \<^const>\<open>cos\<close>, \<^const>\<open>arccos\<close> and \<^const>\<open>abs\<close>. Where the C++ functions give NaN or an
    infinity (a square root of a negative number, an arccosine outside \<open>[-1, 1]\<close>, a
    division by zero) the HOL functions give some real number. Both functions are embedded
    in this reading; it serves the claims about the formulas, the guards and the round
    trip.
  \<^item> Over the reals the quotients under the arccosines of the node and of the true anomaly
    lie in \<open>[-1, 1]\<close>. In the program they are rounded, a rounded quotient can exceed 1,
    and \<^verbatim>\<open>std::acos\<close> is then NaN, which no comparison of the wrapping loops catches.
    The first reading cannot show this. The function from USM elements to Keplerian
    elements is therefore embedded a second time, over an arithmetic of doubles in which
    every operation of the source is a field of a record and a double may have no real
    value (the definitions named \<open>\<dots>InDoubles\<close>). The IEEE 754 binary64 numbers with
    rounding to nearest, ties to even, are one such arithmetic. The claims about the range
    of the angles are settled in this second reading.
  \<^item> A state vector is the list of its coefficients; \<^verbatim>\<open>v( i )\<close> is \<open>v ! i\<close> and the
    assignment \<^verbatim>\<open>v( i ) = x\<close> is \<open>v[i := x]\<close>.
  \<^item> An exception is a value \<open>Inl e\<close> of the result; what a function prints on
    \<^verbatim>\<open>std::cerr\<close> is returned beside its value.
\<close>
text \<open>
  Modelled from the spec: \<^verbatim>\<open>mathematical_constants::PI\<close> is declared in
  \<^verbatim>\<open>mathematicalConstants.h\<close>, which is not among the sources; it is the number \<open>\<pi>\<close>.
\<close>
definition PI :: real where
  "PI = pi"

text \<open>
  The local constant \<^verbatim>\<open>singularityTolerance = 1.0e-15\<close>, declared with the same value in
  both conversion functions.
\<close>
definition singularityTolerance :: real where
  "singularityTolerance = 1 / 10 ^ 15"

text \<open>
  Modelled from the spec: the Keplerian element indices (this definition and the six
  that follow it) are declared in \<^verbatim>\<open>stateVectorIndices.h\<close>, which is not among the
  sources. The data model orders the tuple as semi-major axis or semi-latus rectum (one
  slot, used for the one or the other depending on the regime), eccentricity,
  inclination, right ascension of the ascending node, argument of periapsis, true
  anomaly. The concrete vectors in the theorems below are written in this order.
\<close>
definition semiMajorAxisIndex :: nat where
  "semiMajorAxisIndex = 0"

definition semiLatusRectumIndex :: nat where
  "semiLatusRectumIndex = 0"

definition eccentricityIndex :: nat where
  "eccentricityIndex = 1"

definition inclinationIndex :: nat where
  "inclinationIndex = 2"

definition longitudeOfAscendingNodeIndex :: nat where
  "longitudeOfAscendingNodeIndex = 3"

definition argumentOfPeriapsisIndex :: nat where
  "argumentOfPeriapsisIndex = 4"

definition trueAnomalyIndex :: nat where
  "trueAnomalyIndex = 5"

text \<open>
  Modelled from the spec: the USM element indices (this definition and the six that
  follow it) are declared in \<^verbatim>\<open>stateVectorIndices.h\<close>, which is not among the sources.
  The data model orders the 7-tuple as \<open>C\<close>, \<open>Rf1\<close>, \<open>Rf2\<close>, \<open>\<epsilon>1\<close>, \<open>\<epsilon>2\<close>, \<open>\<epsilon>3\<close>, \<open>\<eta>\<close>.
\<close>
definition CHodographIndex :: nat where
  "CHodographIndex = 0"

definition Rf1HodographIndex :: nat where
  "Rf1HodographIndex = 1"

definition Rf2HodographIndex :: nat where
  "Rf2HodographIndex = 2"

definition epsilon1QuaternionIndex :: nat where
  "epsilon1QuaternionIndex = 3"

definition epsilon2QuaternionIndex :: nat where
  "epsilon2QuaternionIndex = 4"

definition epsilon3QuaternionIndex :: nat where
  "epsilon3QuaternionIndex = 5"

definition etaQuaternionIndex :: nat where
  "etaQuaternionIndex = 6"

text \<open>
  Modelled from the spec: \<^verbatim>\<open>basic_mathematics::Vector6d\<close> is declared in
  \<^verbatim>\<open>linearAlgebraTypes.h\<close>, which is not among the sources; it is the column vector of
  doubles with the fixed number of six coefficients, whose valid indices are \<open>0 .. 5\<close>.
\<close>
definition Vector6d_size :: nat where
  "Vector6d_size = 6"

text \<open>
  \<^verbatim>\<open>Vector6d::Zero( n )\<close>, read as the source writes it: a vector of \<open>n\<close> zero
  coefficients. The functions below are the computation on vectors that have the
  coefficients the source asks for (seven for the USM elements, six for the Keplerian
  elements); whether these fit \<^verbatim>\<open>Vector6d\<close> is a question of its own.
\<close>
definition Zero :: "nat \<Rightarrow> real list" where
  "Zero n = replicate n 0"

text \<open>
  A piece of a message built with \<^verbatim>\<open><<\<close> on a stream: a string literal, a double, or
  \<^verbatim>\<open>std::endl\<close>.
\<close>
datatype fragment = Str string | Num real | Endl

text \<open>The \<^verbatim>\<open>std::runtime_error\<close> thrown through \<^verbatim>\<open>boost::throw_exception\<close>, with its message.\<close>
datatype error = RuntimeError "fragment list"

section \<open>Keplerian elements to USM elements\<close>

definition convertKeplerianToUnifiedStateModelElements ::
  "real list \<Rightarrow> real \<Rightarrow> error + real list" where
  "convertKeplerianToUnifiedStateModelElements keplerianElements centralBodyGravitationalParameter =
    (let convertedUnifiedStateModelElements = Zero 7 in
     if keplerianElements ! inclinationIndex < 0 \<or> keplerianElements ! inclinationIndex > PI
     then Inl (RuntimeError
            [Str ''Inclination is expected in range [0,'', Num PI, Str ('']'' @ [CHR 0x0A]),
             Str ''Specified inclination: '', Num (keplerianElements ! inclinationIndex),
             Str '' rad.'', Endl])
     else
      let convertedUnifiedStateModelElements =
            (if \<bar>keplerianElements ! eccentricityIndex - 1\<bar> < singularityTolerance
             then convertedUnifiedStateModelElements
                    [CHodographIndex :=
                       sqrt (centralBodyGravitationalParameter
                             / keplerianElements ! semiLatusRectumIndex)]
             else convertedUnifiedStateModelElements
                    [CHodographIndex :=
                       sqrt (centralBodyGravitationalParameter
                             / (keplerianElements ! semiMajorAxisIndex
                                * (1 - keplerianElements ! eccentricityIndex
                                       * keplerianElements ! eccentricityIndex)))]);
          RHodographElement =
            keplerianElements ! eccentricityIndex
            * convertedUnifiedStateModelElements ! CHodographIndex;
          convertedUnifiedStateModelElements =
            convertedUnifiedStateModelElements
              [Rf1HodographIndex :=
                 - RHodographElement
                 * sin (keplerianElements ! longitudeOfAscendingNodeIndex
                        + keplerianElements ! argumentOfPeriapsisIndex)];
          convertedUnifiedStateModelElements =
            convertedUnifiedStateModelElements
              [Rf2HodographIndex :=
                 RHodographElement
                 * cos (keplerianElements ! longitudeOfAscendingNodeIndex
                        + keplerianElements ! argumentOfPeriapsisIndex)];
          argumentOfLongitude =
            keplerianElements ! argumentOfPeriapsisIndex + keplerianElements ! trueAnomalyIndex;
          convertedUnifiedStateModelElements =
            convertedUnifiedStateModelElements
              [epsilon1QuaternionIndex :=
                 sin (0.5 * keplerianElements ! inclinationIndex)
                 * cos (0.5 * (keplerianElements ! longitudeOfAscendingNodeIndex
                               - argumentOfLongitude))];
          convertedUnifiedStateModelElements =
            convertedUnifiedStateModelElements
              [epsilon2QuaternionIndex :=
                 sin (0.5 * keplerianElements ! inclinationIndex)
                 * sin (0.5 * (keplerianElements ! longitudeOfAscendingNodeIndex
                               - argumentOfLongitude))];
          convertedUnifiedStateModelElements =
            convertedUnifiedStateModelElements
              [epsilon3QuaternionIndex :=
                 cos (0.5 * keplerianElements ! inclinationIndex)
                 * sin (0.5 * (keplerianElements ! longitudeOfAscendingNodeIndex
                               + argumentOfLongitude))];
          convertedUnifiedStateModelElements =
            convertedUnifiedStateModelElements
              [etaQuaternionIndex :=
                 cos (0.5 * keplerianElements ! inclinationIndex)
                 * cos (0.5 * (keplerianElements ! longitudeOfAscendingNodeIndex
                               + argumentOfLongitude))]
      in Inr convertedUnifiedStateModelElements)"

section \<open>USM elements to Keplerian elements\<close>

text \<open>
  \<^verbatim>\<open>std::atan2( y, x )\<close> of the C standard library on real numbers: the angle in
  \<open>(-\<pi>, \<pi>]\<close> of the point \<open>(x, y)\<close>, and 0 at the origin.
\<close>
definition atan2 :: "real \<Rightarrow> real \<Rightarrow> real" where
  "atan2 y x =
    (if 0 < x then arctan (y / x)
     else if x < 0 then (if 0 \<le> y then arctan (y / x) + pi else arctan (y / x) - pi)
     else if 0 < y then pi / 2
     else if y < 0 then - (pi / 2)
     else 0)"

text \<open>
  The loop \<^verbatim>\<open>while ( x < -singularityTolerance ) { x = x + 2.0 * PI; }\<close>, which the
  source runs on the longitude of the ascending node, on the true anomaly and on the
  argument of periapsis ("ensure the angle is positive").
\<close>
function ensurePositive :: "real \<Rightarrow> real" where
  "ensurePositive x =
    (if x < - singularityTolerance then ensurePositive (x + 2 * PI) else x)"
  by pat_completeness auto
termination
proof (relation "measure (\<lambda>x. nat \<lceil>- x / (2 * pi)\<rceil>)")
  show "wf (measure (\<lambda>x. nat \<lceil>- x / (2 * pi)\<rceil>))"
    by simp
next
  fix x :: real
  assume neg: "x < - singularityTolerance"
  have tol: "0 < singularityTolerance"
    by (simp add: singularityTolerance_def)
  have "x < 0"
    using neg tol by linarith
  then have pos: "0 < - x / (2 * pi)"
    by (simp add: divide_neg_pos)
  have step: "- (x + 2 * PI) / (2 * pi) = - x / (2 * pi) - 1"
    by (simp add: PI_def field_simps)
  have "\<lceil>- x / (2 * pi) - 1\<rceil> = \<lceil>- x / (2 * pi)\<rceil> - 1"
    by simp
  moreover have "0 < \<lceil>- x / (2 * pi)\<rceil>"
    using pos by simp
  ultimately have "nat \<lceil>- (x + 2 * PI) / (2 * pi)\<rceil> < nat \<lceil>- x / (2 * pi)\<rceil>"
    unfolding step by linarith
  then show "(x + 2 * PI, x) \<in> measure (\<lambda>x. nat \<lceil>- x / (2 * pi)\<rceil>)"
    by (simp only: in_measure)
qed

declare ensurePositive.simps [simp del]

text \<open>The line that the pure-retrograde branch prints on \<^verbatim>\<open>std::cerr\<close>.\<close>
definition pureRetrogradeDiagnostic :: "fragment list" where
  "pureRetrogradeDiagnostic =
    [Str (''Pure-retrograde orbit (i=pi). The auxiliary parameters ''
          @ ''cosineLambda, sineLambda and Lambda cannot be calculated.''), Endl]"

text \<open>
  The result is the pair of what was printed on \<^verbatim>\<open>std::cerr\<close> and the vector that is
  returned. The function has no \<^verbatim>\<open>throw\<close>: its result is never \<open>Inl\<close>.
\<close>
definition convertUnifiedStateModelToKeplerianElements ::
  "real list \<Rightarrow> real \<Rightarrow> error + (fragment list \<times> real list)" where
  "convertUnifiedStateModelToKeplerianElements unifiedStateModelElements
      centralBodyGravitationalParameter =
    (let convertedKeplerianElements = Zero 6 in
     if \<bar>unifiedStateModelElements ! epsilon3QuaternionIndex\<bar> < singularityTolerance
        \<and> \<bar>unifiedStateModelElements ! etaQuaternionIndex\<bar> < singularityTolerance
     then Inr (pureRetrogradeDiagnostic, convertedKeplerianElements)
     else
      let cosineLambda =
            (unifiedStateModelElements ! etaQuaternionIndex
               * unifiedStateModelElements ! etaQuaternionIndex
             - unifiedStateModelElements ! epsilon3QuaternionIndex
               * unifiedStateModelElements ! epsilon3QuaternionIndex)
            / (unifiedStateModelElements ! epsilon3QuaternionIndex
                 * unifiedStateModelElements ! epsilon3QuaternionIndex
               + unifiedStateModelElements ! etaQuaternionIndex
                 * unifiedStateModelElements ! etaQuaternionIndex);
          sineLambda =
            (2 * unifiedStateModelElements ! epsilon3QuaternionIndex
               * unifiedStateModelElements ! etaQuaternionIndex)
            / (unifiedStateModelElements ! epsilon3QuaternionIndex
                 * unifiedStateModelElements ! epsilon3QuaternionIndex
               + unifiedStateModelElements ! etaQuaternionIndex
                 * unifiedStateModelElements ! etaQuaternionIndex);
          lambdaFromSineAndCosine = atan2 sineLambda cosineLambda;
          ve1 = unifiedStateModelElements ! Rf1HodographIndex * cosineLambda
                + unifiedStateModelElements ! Rf2HodographIndex * sineLambda;
          ve2 = unifiedStateModelElements ! CHodographIndex
                - unifiedStateModelElements ! Rf1HodographIndex * sineLambda
                + unifiedStateModelElements ! Rf2HodographIndex * cosineLambda;
          RHodographElement =
            sqrt (unifiedStateModelElements ! Rf1HodographIndex
                    * unifiedStateModelElements ! Rf1HodographIndex
                  + unifiedStateModelElements ! Rf2HodographIndex
                    * unifiedStateModelElements ! Rf2HodographIndex);
          convertedKeplerianElements =
            convertedKeplerianElements
              [eccentricityIndex :=
                 RHodographElement / unifiedStateModelElements ! CHodographIndex];
          convertedKeplerianElements =
            (if \<bar>convertedKeplerianElements ! eccentricityIndex - 1\<bar> < singularityTolerance
             then convertedKeplerianElements
                    [semiLatusRectumIndex :=
                       centralBodyGravitationalParameter
                       / (unifiedStateModelElements ! CHodographIndex
                          * unifiedStateModelElements ! CHodographIndex)]
             else convertedKeplerianElements
                    [semiMajorAxisIndex :=
                       centralBodyGravitationalParameter
                       / (2 * unifiedStateModelElements ! CHodographIndex * ve2
                          - (ve1 * ve1 + ve2 * ve2))]);
          convertedKeplerianElements =
            convertedKeplerianElements
              [inclinationIndex :=
                 arccos (1 - 2 * (unifiedStateModelElements ! epsilon1QuaternionIndex
                                    * unifiedStateModelElements ! epsilon1QuaternionIndex
                                  + unifiedStateModelElements ! epsilon2QuaternionIndex
                                    * unifiedStateModelElements ! epsilon2QuaternionIndex))];
          convertedKeplerianElements =
            (if (\<bar>unifiedStateModelElements ! epsilon1QuaternionIndex\<bar> < singularityTolerance
                 \<and> \<bar>unifiedStateModelElements ! epsilon2QuaternionIndex\<bar> < singularityTolerance)
                \<or> (\<bar>unifiedStateModelElements ! epsilon3QuaternionIndex\<bar> < singularityTolerance
                    \<and> \<bar>unifiedStateModelElements ! etaQuaternionIndex\<bar> < singularityTolerance)
             then convertedKeplerianElements [longitudeOfAscendingNodeIndex := 0]
             else
               let convertedKeplerianElements =
                     convertedKeplerianElements
                       [longitudeOfAscendingNodeIndex :=
                          arccos ((unifiedStateModelElements ! epsilon1QuaternionIndex
                                     * unifiedStateModelElements ! etaQuaternionIndex
                                   - unifiedStateModelElements ! epsilon2QuaternionIndex
                                     * unifiedStateModelElements ! epsilon3QuaternionIndex)
                                  / sqrt ((unifiedStateModelElements ! epsilon1QuaternionIndex
                                             * unifiedStateModelElements ! epsilon1QuaternionIndex
                                           + unifiedStateModelElements ! epsilon2QuaternionIndex
                                             * unifiedStateModelElements ! epsilon2QuaternionIndex)
                                          * (unifiedStateModelElements ! etaQuaternionIndex
                                               * unifiedStateModelElements ! etaQuaternionIndex
                                             + unifiedStateModelElements ! epsilon3QuaternionIndex
                                               * unifiedStateModelElements
                                                   ! epsilon3QuaternionIndex)))]
               in convertedKeplerianElements
                    [longitudeOfAscendingNodeIndex :=
                       ensurePositive
                         (convertedKeplerianElements ! longitudeOfAscendingNodeIndex)]);
          convertedKeplerianElements =
            (if \<bar>RHodographElement\<bar> < singularityTolerance
             then
               let convertedKeplerianElements =
                     convertedKeplerianElements [argumentOfPeriapsisIndex := 0];
                   convertedKeplerianElements =
                     convertedKeplerianElements
                       [trueAnomalyIndex :=
                          lambdaFromSineAndCosine
                          - convertedKeplerianElements ! longitudeOfAscendingNodeIndex]
               in convertedKeplerianElements
                    [trueAnomalyIndex :=
                       ensurePositive (convertedKeplerianElements ! trueAnomalyIndex)]
             else
               let convertedKeplerianElements =
                     convertedKeplerianElements
                       [trueAnomalyIndex :=
                          arccos ((ve2 - unifiedStateModelElements ! CHodographIndex)
                                  / RHodographElement)];
                   convertedKeplerianElements =
                     convertedKeplerianElements
                       [trueAnomalyIndex :=
                          ensurePositive (convertedKeplerianElements ! trueAnomalyIndex)];
                   convertedKeplerianElements =
                     convertedKeplerianElements
                       [argumentOfPeriapsisIndex :=
                          lambdaFromSineAndCosine
                          - convertedKeplerianElements ! longitudeOfAscendingNodeIndex
                          - convertedKeplerianElements ! trueAnomalyIndex]
               in convertedKeplerianElements
                    [argumentOfPeriapsisIndex :=
                       ensurePositive (convertedKeplerianElements ! argumentOfPeriapsisIndex)])
      in Inr ([], convertedKeplerianElements))"

section \<open>The values assigned by the source, by name\<close>

text \<open>
  The expressions of the two functions, one definition for each value that the source
  computes, so that the theorems can speak about them. The lemmas
  \<open>keplerianToUnifiedStateModel_accepted\<close> and \<open>unifiedStateModelToKeplerian_regular\<close>
  prove that the functions above return exactly these values.
\<close>

text \<open>
  The semi-latus rectum under the square root of \<open>C\<close>: the coefficient of the input in the
  parabolic branch, \<open>a (1 - e\<^sup>2)\<close> in the other.
\<close>
definition semiLatusRectumOf :: "real list \<Rightarrow> real" where
  "semiLatusRectumOf k =
     (if \<bar>k ! eccentricityIndex - 1\<bar> < singularityTolerance then k ! semiLatusRectumIndex
      else k ! semiMajorAxisIndex * (1 - k ! eccentricityIndex * k ! eccentricityIndex))"

text \<open>The local \<^verbatim>\<open>argumentOfLongitude\<close> of the first function.\<close>
definition argumentOfLongitudeOf :: "real list \<Rightarrow> real" where
  "argumentOfLongitudeOf k = k ! argumentOfPeriapsisIndex + k ! trueAnomalyIndex"

text \<open>The guard of the early return of the second function.\<close>
definition pureRetrograde :: "real list \<Rightarrow> bool" where
  "pureRetrograde u \<longleftrightarrow>
     \<bar>u ! epsilon3QuaternionIndex\<bar> < singularityTolerance
     \<and> \<bar>u ! etaQuaternionIndex\<bar> < singularityTolerance"

text \<open>The first half of the guard of the branch that sets the node to zero.\<close>
definition purePrograde :: "real list \<Rightarrow> bool" where
  "purePrograde u \<longleftrightarrow>
     \<bar>u ! epsilon1QuaternionIndex\<bar> < singularityTolerance
     \<and> \<bar>u ! epsilon2QuaternionIndex\<bar> < singularityTolerance"

definition cosineLambdaOf :: "real list \<Rightarrow> real" where
  "cosineLambdaOf u =
     (u ! etaQuaternionIndex * u ! etaQuaternionIndex
      - u ! epsilon3QuaternionIndex * u ! epsilon3QuaternionIndex)
     / (u ! epsilon3QuaternionIndex * u ! epsilon3QuaternionIndex
        + u ! etaQuaternionIndex * u ! etaQuaternionIndex)"

definition sineLambdaOf :: "real list \<Rightarrow> real" where
  "sineLambdaOf u =
     (2 * u ! epsilon3QuaternionIndex * u ! etaQuaternionIndex)
     / (u ! epsilon3QuaternionIndex * u ! epsilon3QuaternionIndex
        + u ! etaQuaternionIndex * u ! etaQuaternionIndex)"

definition lambdaOf :: "real list \<Rightarrow> real" where
  "lambdaOf u = atan2 (sineLambdaOf u) (cosineLambdaOf u)"

definition ve1Of :: "real list \<Rightarrow> real" where
  "ve1Of u = u ! Rf1HodographIndex * cosineLambdaOf u + u ! Rf2HodographIndex * sineLambdaOf u"

definition ve2Of :: "real list \<Rightarrow> real" where
  "ve2Of u = u ! CHodographIndex - u ! Rf1HodographIndex * sineLambdaOf u
             + u ! Rf2HodographIndex * cosineLambdaOf u"

definition RHodographOf :: "real list \<Rightarrow> real" where
  "RHodographOf u = sqrt (u ! Rf1HodographIndex * u ! Rf1HodographIndex
                          + u ! Rf2HodographIndex * u ! Rf2HodographIndex)"

definition eccentricityOf :: "real list \<Rightarrow> real" where
  "eccentricityOf u = RHodographOf u / u ! CHodographIndex"

definition sizeOf :: "real list \<Rightarrow> real \<Rightarrow> real" where
  "sizeOf u mu =
     (if \<bar>eccentricityOf u - 1\<bar> < singularityTolerance
      then mu / (u ! CHodographIndex * u ! CHodographIndex)
      else mu / (2 * u ! CHodographIndex * ve2Of u - (ve1Of u * ve1Of u + ve2Of u * ve2Of u)))"

definition inclinationOf :: "real list \<Rightarrow> real" where
  "inclinationOf u =
     arccos (1 - 2 * (u ! epsilon1QuaternionIndex * u ! epsilon1QuaternionIndex
                      + u ! epsilon2QuaternionIndex * u ! epsilon2QuaternionIndex))"

definition nodeCosineOf :: "real list \<Rightarrow> real" where
  "nodeCosineOf u =
     (u ! epsilon1QuaternionIndex * u ! etaQuaternionIndex
      - u ! epsilon2QuaternionIndex * u ! epsilon3QuaternionIndex)
     / sqrt ((u ! epsilon1QuaternionIndex * u ! epsilon1QuaternionIndex
              + u ! epsilon2QuaternionIndex * u ! epsilon2QuaternionIndex)
             * (u ! etaQuaternionIndex * u ! etaQuaternionIndex
                + u ! epsilon3QuaternionIndex * u ! epsilon3QuaternionIndex))"

definition nodeOf :: "real list \<Rightarrow> real" where
  "nodeOf u =
     (if purePrograde u \<or> pureRetrograde u then 0
      else ensurePositive (arccos (nodeCosineOf u)))"

definition trueAnomalyOf :: "real list \<Rightarrow> real" where
  "trueAnomalyOf u =
     (if \<bar>RHodographOf u\<bar> < singularityTolerance
      then ensurePositive (lambdaOf u - nodeOf u)
      else ensurePositive (arccos ((ve2Of u - u ! CHodographIndex) / RHodographOf u)))"

definition periapsisOf :: "real list \<Rightarrow> real" where
  "periapsisOf u =
     (if \<bar>RHodographOf u\<bar> < singularityTolerance then 0
      else ensurePositive (lambdaOf u - nodeOf u - trueAnomalyOf u))"

section \<open>USM elements to Keplerian elements, on doubles\<close>

text \<open>
  An arithmetic of doubles: the literals, the constant \<^verbatim>\<open>PI\<close>, and every operation that
  the second function applies to a \<^verbatim>\<open>double\<close> (\<^verbatim>\<open>+\<close>, binary and unary \<^verbatim>\<open>-\<close>, \<^verbatim>\<open>*\<close>,
  \<^verbatim>\<open>/\<close>, \<^verbatim>\<open>std::fabs\<close>, \<^verbatim>\<open>std::sqrt\<close>, \<^verbatim>\<open>std::acos\<close>, \<^verbatim>\<open>std::atan2\<close>, \<^verbatim>\<open><\<close>).
  \<open>dVal d\<close> is the real value of the double \<open>d\<close>, and \<open>None\<close> when it has none (NaN, an
  infinity).
\<close>
record 'd arithmetic =
  dLit :: "real \<Rightarrow> 'd"
  dPI :: "'d"
  dAdd :: "'d \<Rightarrow> 'd \<Rightarrow> 'd"
  dSub :: "'d \<Rightarrow> 'd \<Rightarrow> 'd"
  dMul :: "'d \<Rightarrow> 'd \<Rightarrow> 'd"
  dDiv :: "'d \<Rightarrow> 'd \<Rightarrow> 'd"
  dNeg :: "'d \<Rightarrow> 'd"
  dAbs :: "'d \<Rightarrow> 'd"
  dSqrt :: "'d \<Rightarrow> 'd"
  dAcos :: "'d \<Rightarrow> 'd"
  dAtan2 :: "'d \<Rightarrow> 'd \<Rightarrow> 'd"
  dLess :: "'d \<Rightarrow> 'd \<Rightarrow> bool"
  dVal :: "'d \<Rightarrow> real option"

text \<open>The local \<^verbatim>\<open>double singularityTolerance = 1.0e-15\<close> of the second function.\<close>
definition toleranceInDoubles :: "'d arithmetic \<Rightarrow> 'd" where
  "toleranceInDoubles A = dLit A (1 / 10 ^ 15)"

text \<open>The expression \<^verbatim>\<open>2.0 * PI\<close> that the wrapping loops add.\<close>
definition twoPiInDoubles :: "'d arithmetic \<Rightarrow> 'd" where
  "twoPiInDoubles A = dMul A (dLit A 2) (dPI A)"

text \<open>
  The loop \<^verbatim>\<open>while ( x < -singularityTolerance ) { x = x + 2.0 * PI; }\<close> on doubles. Nothing
  in the arithmetic makes the sum grow (minus infinity plus \<open>2 \<pi>\<close> is minus infinity), so
  the loop is a partial function: \<open>None\<close> is the loop that never ends.
\<close>
partial_function (option) ensurePositiveInDoubles :: "'d arithmetic \<Rightarrow> 'd \<Rightarrow> 'd option" where
  "ensurePositiveInDoubles A x =
    (if dLess A x (dNeg A (toleranceInDoubles A))
     then ensurePositiveInDoubles A (dAdd A x (twoPiInDoubles A))
     else Some x)"

text \<open>
  The second function on doubles, statement by statement as in the source; \<open>None\<close> is a
  wrapping loop that never ends. It differs from the reading over the reals above only in
  the type of the numbers and in the loops.
\<close>
definition convertUnifiedStateModelToKeplerianElementsInDoubles ::
  "'d arithmetic \<Rightarrow> 'd list \<Rightarrow> 'd \<Rightarrow> (error + (fragment list \<times> 'd list)) option" where
  "convertUnifiedStateModelToKeplerianElementsInDoubles A unifiedStateModelElements
      centralBodyGravitationalParameter =
    (let convertedKeplerianElements = replicate 6 (dLit A 0);
         singularityTolerance = toleranceInDoubles A
     in
     if dLess A (dAbs A (unifiedStateModelElements ! epsilon3QuaternionIndex)) singularityTolerance
        \<and> dLess A (dAbs A (unifiedStateModelElements ! etaQuaternionIndex)) singularityTolerance
     then Some (Inr (pureRetrogradeDiagnostic, convertedKeplerianElements))
     else do {
       let cosineLambda =
             dDiv A
               (dSub A (dMul A (unifiedStateModelElements ! etaQuaternionIndex)
                          (unifiedStateModelElements ! etaQuaternionIndex))
                  (dMul A (unifiedStateModelElements ! epsilon3QuaternionIndex)
                     (unifiedStateModelElements ! epsilon3QuaternionIndex)))
               (dAdd A (dMul A (unifiedStateModelElements ! epsilon3QuaternionIndex)
                          (unifiedStateModelElements ! epsilon3QuaternionIndex))
                  (dMul A (unifiedStateModelElements ! etaQuaternionIndex)
                     (unifiedStateModelElements ! etaQuaternionIndex)));
       let sineLambda =
             dDiv A
               (dMul A (dMul A (dLit A 2) (unifiedStateModelElements ! epsilon3QuaternionIndex))
                  (unifiedStateModelElements ! etaQuaternionIndex))
               (dAdd A (dMul A (unifiedStateModelElements ! epsilon3QuaternionIndex)
                          (unifiedStateModelElements ! epsilon3QuaternionIndex))
                  (dMul A (unifiedStateModelElements ! etaQuaternionIndex)
                     (unifiedStateModelElements ! etaQuaternionIndex)));
       let lambdaFromSineAndCosine = dAtan2 A sineLambda cosineLambda;
       let ve1 = dAdd A (dMul A (unifiedStateModelElements ! Rf1HodographIndex) cosineLambda)
                   (dMul A (unifiedStateModelElements ! Rf2HodographIndex) sineLambda);
       let ve2 = dAdd A
                   (dSub A (unifiedStateModelElements ! CHodographIndex)
                      (dMul A (unifiedStateModelElements ! Rf1HodographIndex) sineLambda))
                   (dMul A (unifiedStateModelElements ! Rf2HodographIndex) cosineLambda);
       let RHodographElement =
             dSqrt A
               (dAdd A (dMul A (unifiedStateModelElements ! Rf1HodographIndex)
                          (unifiedStateModelElements ! Rf1HodographIndex))
                  (dMul A (unifiedStateModelElements ! Rf2HodographIndex)
                     (unifiedStateModelElements ! Rf2HodographIndex)));
       let convertedKeplerianElements =
             convertedKeplerianElements
               [eccentricityIndex := dDiv A RHodographElement (unifiedStateModelElements ! CHodographIndex)];
       let convertedKeplerianElements =
             (if dLess A
                   (dAbs A (dSub A (convertedKeplerianElements ! eccentricityIndex) (dLit A 1)))
                   singularityTolerance
              then convertedKeplerianElements
                     [semiLatusRectumIndex :=
                        dDiv A centralBodyGravitationalParameter
                          (dMul A (unifiedStateModelElements ! CHodographIndex)
                             (unifiedStateModelElements ! CHodographIndex))]
              else convertedKeplerianElements
                     [semiMajorAxisIndex :=
                        dDiv A centralBodyGravitationalParameter
                          (dSub A
                             (dMul A (dMul A (dLit A 2) (unifiedStateModelElements ! CHodographIndex)) ve2)
                             (dAdd A (dMul A ve1 ve1) (dMul A ve2 ve2)))]);
       let convertedKeplerianElements =
             convertedKeplerianElements
               [inclinationIndex :=
                  dAcos A
                    (dSub A (dLit A 1)
                       (dMul A (dLit A 2)
                          (dAdd A (dMul A (unifiedStateModelElements ! epsilon1QuaternionIndex)
                                     (unifiedStateModelElements ! epsilon1QuaternionIndex))
                             (dMul A (unifiedStateModelElements ! epsilon2QuaternionIndex)
                                (unifiedStateModelElements ! epsilon2QuaternionIndex)))))];
       convertedKeplerianElements \<leftarrow>
         (if (dLess A (dAbs A (unifiedStateModelElements ! epsilon1QuaternionIndex)) singularityTolerance
              \<and> dLess A (dAbs A (unifiedStateModelElements ! epsilon2QuaternionIndex)) singularityTolerance)
             \<or> (dLess A (dAbs A (unifiedStateModelElements ! epsilon3QuaternionIndex)) singularityTolerance
                 \<and> dLess A (dAbs A (unifiedStateModelElements ! etaQuaternionIndex)) singularityTolerance)
          then Some (convertedKeplerianElements [longitudeOfAscendingNodeIndex := dLit A 0])
          else do {
            let convertedKeplerianElements =
                  convertedKeplerianElements
                    [longitudeOfAscendingNodeIndex :=
                       dAcos A
                         (dDiv A
                            (dSub A (dMul A (unifiedStateModelElements ! epsilon1QuaternionIndex)
                                       (unifiedStateModelElements ! etaQuaternionIndex))
                               (dMul A (unifiedStateModelElements ! epsilon2QuaternionIndex)
                                  (unifiedStateModelElements ! epsilon3QuaternionIndex)))
                            (dSqrt A
                               (dMul A
                                  (dAdd A (dMul A (unifiedStateModelElements ! epsilon1QuaternionIndex)
                                             (unifiedStateModelElements ! epsilon1QuaternionIndex))
                                     (dMul A (unifiedStateModelElements ! epsilon2QuaternionIndex)
                                        (unifiedStateModelElements ! epsilon2QuaternionIndex)))
                                  (dAdd A (dMul A (unifiedStateModelElements ! etaQuaternionIndex)
                                             (unifiedStateModelElements ! etaQuaternionIndex))
                                     (dMul A (unifiedStateModelElements ! epsilon3QuaternionIndex)
                                        (unifiedStateModelElements ! epsilon3QuaternionIndex))))))];
            wrapped \<leftarrow>
              ensurePositiveInDoubles A
                (convertedKeplerianElements ! longitudeOfAscendingNodeIndex);
            Some (convertedKeplerianElements [longitudeOfAscendingNodeIndex := wrapped])
          });
       (if dLess A (dAbs A RHodographElement) singularityTolerance
        then do {
          let convertedKeplerianElements =
                convertedKeplerianElements [argumentOfPeriapsisIndex := dLit A 0];
          let convertedKeplerianElements =
                convertedKeplerianElements
                  [trueAnomalyIndex :=
                     dSub A lambdaFromSineAndCosine
                       (convertedKeplerianElements ! longitudeOfAscendingNodeIndex)];
          wrapped \<leftarrow>
            ensurePositiveInDoubles A (convertedKeplerianElements ! trueAnomalyIndex);
          Some (Inr ([], convertedKeplerianElements [trueAnomalyIndex := wrapped]))
        }
        else do {
          let convertedKeplerianElements =
                convertedKeplerianElements
                  [trueAnomalyIndex :=
                     dAcos A
                       (dDiv A (dSub A ve2 (unifiedStateModelElements ! CHodographIndex))
                          RHodographElement)];
          wrapped \<leftarrow>
            ensurePositiveInDoubles A (convertedKeplerianElements ! trueAnomalyIndex);
          let convertedKeplerianElements =
                convertedKeplerianElements [trueAnomalyIndex := wrapped];
          let convertedKeplerianElements =
                convertedKeplerianElements
                  [argumentOfPeriapsisIndex :=
                     dSub A
                       (dSub A lambdaFromSineAndCosine
                          (convertedKeplerianElements ! longitudeOfAscendingNodeIndex))
                       (convertedKeplerianElements ! trueAnomalyIndex)];
          wrapped \<leftarrow>
            ensurePositiveInDoubles A (convertedKeplerianElements ! argumentOfPeriapsisIndex);
          Some (Inr ([], convertedKeplerianElements [argumentOfPeriapsisIndex := wrapped]))
        })
     })"

text \<open>
  The values that the second function computes on doubles, one definition for each, as
  for the reading over the reals. The lemmas \<open>inDoubles_singular\<close> and
  \<open>inDoubles_regular\<close> prove that the function on doubles returns exactly these values.
\<close>
definition pureRetrogradeInDoubles :: "'d arithmetic \<Rightarrow> 'd list \<Rightarrow> bool" where
  "pureRetrogradeInDoubles A u \<longleftrightarrow>
     dLess A (dAbs A (u ! epsilon3QuaternionIndex)) (toleranceInDoubles A)
     \<and> dLess A (dAbs A (u ! etaQuaternionIndex)) (toleranceInDoubles A)"

definition pureProgradeInDoubles :: "'d arithmetic \<Rightarrow> 'd list \<Rightarrow> bool" where
  "pureProgradeInDoubles A u \<longleftrightarrow>
     dLess A (dAbs A (u ! epsilon1QuaternionIndex)) (toleranceInDoubles A)
     \<and> dLess A (dAbs A (u ! epsilon2QuaternionIndex)) (toleranceInDoubles A)"

definition cosineLambdaInDoubles :: "'d arithmetic \<Rightarrow> 'd list \<Rightarrow> 'd" where
  "cosineLambdaInDoubles A u =
     dDiv A
       (dSub A (dMul A (u ! etaQuaternionIndex) (u ! etaQuaternionIndex))
          (dMul A (u ! epsilon3QuaternionIndex) (u ! epsilon3QuaternionIndex)))
       (dAdd A (dMul A (u ! epsilon3QuaternionIndex) (u ! epsilon3QuaternionIndex))
          (dMul A (u ! etaQuaternionIndex) (u ! etaQuaternionIndex)))"

definition sineLambdaInDoubles :: "'d arithmetic \<Rightarrow> 'd list \<Rightarrow> 'd" where
  "sineLambdaInDoubles A u =
     dDiv A
       (dMul A (dMul A (dLit A 2) (u ! epsilon3QuaternionIndex)) (u ! etaQuaternionIndex))
       (dAdd A (dMul A (u ! epsilon3QuaternionIndex) (u ! epsilon3QuaternionIndex))
          (dMul A (u ! etaQuaternionIndex) (u ! etaQuaternionIndex)))"

definition lambdaInDoubles :: "'d arithmetic \<Rightarrow> 'd list \<Rightarrow> 'd" where
  "lambdaInDoubles A u = dAtan2 A (sineLambdaInDoubles A u) (cosineLambdaInDoubles A u)"

definition ve1InDoubles :: "'d arithmetic \<Rightarrow> 'd list \<Rightarrow> 'd" where
  "ve1InDoubles A u =
     dAdd A (dMul A (u ! Rf1HodographIndex) (cosineLambdaInDoubles A u))
       (dMul A (u ! Rf2HodographIndex) (sineLambdaInDoubles A u))"

definition ve2InDoubles :: "'d arithmetic \<Rightarrow> 'd list \<Rightarrow> 'd" where
  "ve2InDoubles A u =
     dAdd A
       (dSub A (u ! CHodographIndex) (dMul A (u ! Rf1HodographIndex) (sineLambdaInDoubles A u)))
       (dMul A (u ! Rf2HodographIndex) (cosineLambdaInDoubles A u))"

definition RHodographInDoubles :: "'d arithmetic \<Rightarrow> 'd list \<Rightarrow> 'd" where
  "RHodographInDoubles A u =
     dSqrt A
       (dAdd A (dMul A (u ! Rf1HodographIndex) (u ! Rf1HodographIndex))
          (dMul A (u ! Rf2HodographIndex) (u ! Rf2HodographIndex)))"

definition circularInDoubles :: "'d arithmetic \<Rightarrow> 'd list \<Rightarrow> bool" where
  "circularInDoubles A u \<longleftrightarrow>
     dLess A (dAbs A (RHodographInDoubles A u)) (toleranceInDoubles A)"

definition eccentricityInDoubles :: "'d arithmetic \<Rightarrow> 'd list \<Rightarrow> 'd" where
  "eccentricityInDoubles A u = dDiv A (RHodographInDoubles A u) (u ! CHodographIndex)"

definition sizeInDoubles :: "'d arithmetic \<Rightarrow> 'd list \<Rightarrow> 'd \<Rightarrow> 'd" where
  "sizeInDoubles A u mu =
     (if dLess A (dAbs A (dSub A (eccentricityInDoubles A u) (dLit A 1))) (toleranceInDoubles A)
      then dDiv A mu (dMul A (u ! CHodographIndex) (u ! CHodographIndex))
      else dDiv A mu
             (dSub A (dMul A (dMul A (dLit A 2) (u ! CHodographIndex)) (ve2InDoubles A u))
                (dAdd A (dMul A (ve1InDoubles A u) (ve1InDoubles A u))
                   (dMul A (ve2InDoubles A u) (ve2InDoubles A u)))))"

definition inclinationInDoubles :: "'d arithmetic \<Rightarrow> 'd list \<Rightarrow> 'd" where
  "inclinationInDoubles A u =
     dAcos A
       (dSub A (dLit A 1)
          (dMul A (dLit A 2)
             (dAdd A (dMul A (u ! epsilon1QuaternionIndex) (u ! epsilon1QuaternionIndex))
                (dMul A (u ! epsilon2QuaternionIndex) (u ! epsilon2QuaternionIndex)))))"

text \<open>The quotient under \<^verbatim>\<open>std::acos\<close> in the longitude of the ascending node.\<close>
definition nodeCosineInDoubles :: "'d arithmetic \<Rightarrow> 'd list \<Rightarrow> 'd" where
  "nodeCosineInDoubles A u =
     dDiv A
       (dSub A (dMul A (u ! epsilon1QuaternionIndex) (u ! etaQuaternionIndex))
          (dMul A (u ! epsilon2QuaternionIndex) (u ! epsilon3QuaternionIndex)))
       (dSqrt A
          (dMul A
             (dAdd A (dMul A (u ! epsilon1QuaternionIndex) (u ! epsilon1QuaternionIndex))
                (dMul A (u ! epsilon2QuaternionIndex) (u ! epsilon2QuaternionIndex)))
             (dAdd A (dMul A (u ! etaQuaternionIndex) (u ! etaQuaternionIndex))
                (dMul A (u ! epsilon3QuaternionIndex) (u ! epsilon3QuaternionIndex)))))"

text \<open>The quotient under \<^verbatim>\<open>std::acos\<close> in the true anomaly of an eccentric orbit.\<close>
definition anomalyCosineInDoubles :: "'d arithmetic \<Rightarrow> 'd list \<Rightarrow> 'd" where
  "anomalyCosineInDoubles A u =
     dDiv A (dSub A (ve2InDoubles A u) (u ! CHodographIndex)) (RHodographInDoubles A u)"

text \<open>The three angles after their wrapping loops.\<close>
definition nodeInDoubles :: "'d arithmetic \<Rightarrow> 'd list \<Rightarrow> 'd option" where
  "nodeInDoubles A u =
     (if pureProgradeInDoubles A u \<or> pureRetrogradeInDoubles A u then Some (dLit A 0)
      else ensurePositiveInDoubles A (dAcos A (nodeCosineInDoubles A u)))"

definition trueAnomalyInDoubles :: "'d arithmetic \<Rightarrow> 'd list \<Rightarrow> 'd \<Rightarrow> 'd option" where
  "trueAnomalyInDoubles A u node =
     (if circularInDoubles A u
      then ensurePositiveInDoubles A (dSub A (lambdaInDoubles A u) node)
      else ensurePositiveInDoubles A (dAcos A (anomalyCosineInDoubles A u)))"

definition periapsisInDoubles :: "'d arithmetic \<Rightarrow> 'd list \<Rightarrow> 'd \<Rightarrow> 'd \<Rightarrow> 'd option" where
  "periapsisInDoubles A u node anomaly =
     (if circularInDoubles A u then Some (dLit A 0)
      else ensurePositiveInDoubles A (dSub A (dSub A (lambdaInDoubles A u) node) anomaly))"

text \<open>
  What the theorems on the range of the angles need of an arithmetic of doubles. \<open>t\<close>, \<open>p\<close>
  and \<open>tp\<close> are the real values of \<^verbatim>\<open>singularityTolerance\<close>, \<^verbatim>\<open>PI\<close> and \<^verbatim>\<open>2.0 * PI\<close>.
  \<^item> The literal 0 is 0, the tolerance is positive and its negation is exact, and
    \<^verbatim>\<open>2.0 * PI\<close> lies below \<open>2 \<pi>\<close> (the double nearest to \<open>\<pi>\<close> lies below \<open>\<pi>\<close>).
  \<^item> \<^verbatim>\<open><\<close> on two doubles that have a value compares the values.
  \<^item> A sum or a difference that has a value has operands that have one, and rounding does
    not carry a sum or a difference across a double that it does not exceed.
  \<^item> A value of \<^verbatim>\<open>std::acos\<close> lies between 0 and \<^verbatim>\<open>PI\<close>, a value of \<^verbatim>\<open>std::atan2\<close> is
    at most \<^verbatim>\<open>PI\<close>.
\<close>
definition doubleArithmetic :: "'d arithmetic \<Rightarrow> real \<Rightarrow> real \<Rightarrow> real \<Rightarrow> bool" where
  "doubleArithmetic A t p tp \<longleftrightarrow>
     dVal A (dLit A 0) = Some 0
     \<and> dVal A (toleranceInDoubles A) = Some t \<and> 0 < t
     \<and> dVal A (dNeg A (toleranceInDoubles A)) = Some (- t)
     \<and> dVal A (dPI A) = Some p \<and> 0 \<le> p
     \<and> dVal A (twoPiInDoubles A) = Some tp \<and> p \<le> tp
     \<and> (\<forall>a b ra rb. dVal A a = Some ra \<longrightarrow> dVal A b = Some rb \<longrightarrow> dLess A a b = (ra < rb))
     \<and> (\<forall>a r. dVal A (dAdd A a (twoPiInDoubles A)) = Some r
            \<longrightarrow> (\<exists>ra. dVal A a = Some ra \<and> (ra \<le> 0 \<longrightarrow> r \<le> tp)))
     \<and> (\<forall>a b r. dVal A (dSub A a b) = Some r
            \<longrightarrow> (\<exists>ra rb. dVal A a = Some ra \<and> dVal A b = Some rb \<and> (ra - rb \<le> p \<longrightarrow> r \<le> p)))
     \<and> (\<forall>x r. dVal A (dAcos A x) = Some r \<longrightarrow> 0 \<le> r \<and> r \<le> p)
     \<and> (\<forall>y x r. dVal A (dAtan2 A y x) = Some r \<longrightarrow> r \<le> p)
     \<and> tp < 2 * pi"

section \<open>IEEE 754 binary64\<close>

text \<open>
  The doubles of the program: a binary64 number is a real number of the format, an
  infinity or NaN. The two zeros are not told apart and all NaNs are one.
\<close>
datatype binary64 = Finite real | PlusInfinity | MinusInfinity | NaN

text \<open>The integer nearest to \<open>x\<close>, the even one of the two at a tie.\<close>
definition roundToEven :: "real \<Rightarrow> int" where
  "roundToEven x =
    (if x - of_int \<lfloor>x\<rfloor> < 1 / 2 then \<lfloor>x\<rfloor>
     else if 1 / 2 < x - of_int \<lfloor>x\<rfloor> then \<lfloor>x\<rfloor> + 1
     else if even \<lfloor>x\<rfloor> then \<lfloor>x\<rfloor> else \<lfloor>x\<rfloor> + 1)"

text \<open>
  The exponent \<open>e\<close> of the binade \<open>[2\<^sup>e, 2\<^sup>e\<^sup>+\<^sup>1)\<close> of \<open>\<bar>x\<bar>\<close>, and \<open>-1022\<close> for a
  subnormal \<open>x\<close>.
\<close>
definition binadeOf :: "real \<Rightarrow> int" where
  "binadeOf x = max \<lfloor>log 2 \<bar>x\<bar>\<rfloor> (- 1022)"

text \<open>
  Rounding to nearest, ties to even, of a real number to binary64: the nearest multiple of
  the unit in the last place of the binade (53 significant bits), and an infinity when
  that multiple has left the format.
\<close>
definition roundBinary64 :: "real \<Rightarrow> binary64" where
  "roundBinary64 x =
    (if x = 0 then Finite 0
     else
       let ulp = 2 powr (of_int (binadeOf x) - 52);
           y = of_int (roundToEven (x / ulp)) * ulp
       in if \<bar>y\<bar> < 2 ^ 1024 then Finite y
          else if 0 < x then PlusInfinity else MinusInfinity)"

text \<open>The infinity of the given sign.\<close>
definition signedInfinity :: "bool \<Rightarrow> binary64" where
  "signedInfinity positive = (if positive then PlusInfinity else MinusInfinity)"

text \<open>
  Modelled from the spec: the value of the constant \<^verbatim>\<open>PI\<close> as a double, the binary64
  number nearest to \<open>\<pi>\<close>, which is \<open>884279719003555 / 2\<^sup>4\<^sup>8\<close> and lies below \<open>\<pi>\<close>
  (lemma \<open>binary64PI_less_pi\<close>).
\<close>
definition binary64PI :: real where
  "binary64PI = 884279719003555 / 281474976710656"

text \<open>
  \<^verbatim>\<open>std::acos\<close> and \<^verbatim>\<open>std::atan2\<close> return a double in \<open>[0, PI]\<close> and in \<open>[-PI, PI]\<close>: the
  rounded angle is kept within the double \<^verbatim>\<open>PI\<close>.
\<close>
definition clampToPI :: "binary64 \<Rightarrow> binary64" where
  "clampToPI d =
    (case d of Finite r \<Rightarrow> Finite (max (- binary64PI) (min binary64PI r)) | _ \<Rightarrow> d)"

text \<open>
  The operations of IEEE 754 on binary64 numbers: the exact result rounded, with the
  rules of the standard for the infinities and NaN. Every operation of the source is
  rounded on its own (no fused multiply-add). \<^verbatim>\<open>std::acos\<close> is NaN outside \<open>[-1, 1]\<close>; a
  comparison with NaN is false.
\<close>
fun b64Neg :: "binary64 \<Rightarrow> binary64" where
  "b64Neg (Finite a) = Finite (- a)"
| "b64Neg PlusInfinity = MinusInfinity"
| "b64Neg MinusInfinity = PlusInfinity"
| "b64Neg NaN = NaN"

fun b64Abs :: "binary64 \<Rightarrow> binary64" where
  "b64Abs (Finite a) = Finite \<bar>a\<bar>"
| "b64Abs PlusInfinity = PlusInfinity"
| "b64Abs MinusInfinity = PlusInfinity"
| "b64Abs NaN = NaN"

fun b64Add :: "binary64 \<Rightarrow> binary64 \<Rightarrow> binary64" where
  "b64Add (Finite a) (Finite b) = roundBinary64 (a + b)"
| "b64Add (Finite a) PlusInfinity = PlusInfinity"
| "b64Add (Finite a) MinusInfinity = MinusInfinity"
| "b64Add PlusInfinity (Finite b) = PlusInfinity"
| "b64Add MinusInfinity (Finite b) = MinusInfinity"
| "b64Add PlusInfinity PlusInfinity = PlusInfinity"
| "b64Add MinusInfinity MinusInfinity = MinusInfinity"
| "b64Add PlusInfinity MinusInfinity = NaN"
| "b64Add MinusInfinity PlusInfinity = NaN"
| "b64Add NaN b = NaN"
| "b64Add (Finite a) NaN = NaN"
| "b64Add PlusInfinity NaN = NaN"
| "b64Add MinusInfinity NaN = NaN"

definition b64Sub :: "binary64 \<Rightarrow> binary64 \<Rightarrow> binary64" where
  "b64Sub a b = b64Add a (b64Neg b)"

fun b64Mul :: "binary64 \<Rightarrow> binary64 \<Rightarrow> binary64" where
  "b64Mul (Finite a) (Finite b) = roundBinary64 (a * b)"
| "b64Mul (Finite a) PlusInfinity = (if a = 0 then NaN else signedInfinity (0 < a))"
| "b64Mul (Finite a) MinusInfinity = (if a = 0 then NaN else signedInfinity (a < 0))"
| "b64Mul PlusInfinity (Finite b) = (if b = 0 then NaN else signedInfinity (0 < b))"
| "b64Mul MinusInfinity (Finite b) = (if b = 0 then NaN else signedInfinity (b < 0))"
| "b64Mul PlusInfinity PlusInfinity = PlusInfinity"
| "b64Mul MinusInfinity MinusInfinity = PlusInfinity"
| "b64Mul PlusInfinity MinusInfinity = MinusInfinity"
| "b64Mul MinusInfinity PlusInfinity = MinusInfinity"
| "b64Mul NaN b = NaN"
| "b64Mul (Finite a) NaN = NaN"
| "b64Mul PlusInfinity NaN = NaN"
| "b64Mul MinusInfinity NaN = NaN"

fun b64Div :: "binary64 \<Rightarrow> binary64 \<Rightarrow> binary64" where
  "b64Div (Finite a) (Finite b) =
     (if b = 0 then (if a = 0 then NaN else signedInfinity (0 < a))
      else roundBinary64 (a / b))"
| "b64Div (Finite a) PlusInfinity = Finite 0"
| "b64Div (Finite a) MinusInfinity = Finite 0"
| "b64Div PlusInfinity (Finite b) = signedInfinity (0 \<le> b)"
| "b64Div MinusInfinity (Finite b) = signedInfinity (b < 0)"
| "b64Div PlusInfinity PlusInfinity = NaN"
| "b64Div PlusInfinity MinusInfinity = NaN"
| "b64Div MinusInfinity PlusInfinity = NaN"
| "b64Div MinusInfinity MinusInfinity = NaN"
| "b64Div NaN b = NaN"
| "b64Div (Finite a) NaN = NaN"
| "b64Div PlusInfinity NaN = NaN"
| "b64Div MinusInfinity NaN = NaN"

fun b64Sqrt :: "binary64 \<Rightarrow> binary64" where
  "b64Sqrt (Finite a) = (if a < 0 then NaN else roundBinary64 (sqrt a))"
| "b64Sqrt PlusInfinity = PlusInfinity"
| "b64Sqrt MinusInfinity = NaN"
| "b64Sqrt NaN = NaN"

fun b64Acos :: "binary64 \<Rightarrow> binary64" where
  "b64Acos (Finite a) =
     (if - 1 \<le> a \<and> a \<le> 1 then clampToPI (roundBinary64 (arccos a)) else NaN)"
| "b64Acos PlusInfinity = NaN"
| "b64Acos MinusInfinity = NaN"
| "b64Acos NaN = NaN"

fun b64Atan2 :: "binary64 \<Rightarrow> binary64 \<Rightarrow> binary64" where
  "b64Atan2 (Finite y) (Finite x) = clampToPI (roundBinary64 (atan2 y x))"
| "b64Atan2 (Finite y) PlusInfinity = Finite 0"
| "b64Atan2 (Finite y) MinusInfinity = Finite (if 0 \<le> y then binary64PI else - binary64PI)"
| "b64Atan2 PlusInfinity (Finite x) = clampToPI (roundBinary64 (pi / 2))"
| "b64Atan2 MinusInfinity (Finite x) = clampToPI (roundBinary64 (- (pi / 2)))"
| "b64Atan2 PlusInfinity PlusInfinity = clampToPI (roundBinary64 (pi / 4))"
| "b64Atan2 MinusInfinity PlusInfinity = clampToPI (roundBinary64 (- (pi / 4)))"
| "b64Atan2 PlusInfinity MinusInfinity = clampToPI (roundBinary64 (3 * pi / 4))"
| "b64Atan2 MinusInfinity MinusInfinity = clampToPI (roundBinary64 (- (3 * pi / 4)))"
| "b64Atan2 NaN x = NaN"
| "b64Atan2 (Finite y) NaN = NaN"
| "b64Atan2 PlusInfinity NaN = NaN"
| "b64Atan2 MinusInfinity NaN = NaN"

fun b64Less :: "binary64 \<Rightarrow> binary64 \<Rightarrow> bool" where
  "b64Less (Finite a) (Finite b) = (a < b)"
| "b64Less (Finite a) PlusInfinity = True"
| "b64Less (Finite a) MinusInfinity = False"
| "b64Less MinusInfinity (Finite b) = True"
| "b64Less MinusInfinity PlusInfinity = True"
| "b64Less MinusInfinity MinusInfinity = False"
| "b64Less PlusInfinity (Finite b) = False"
| "b64Less PlusInfinity PlusInfinity = False"
| "b64Less PlusInfinity MinusInfinity = False"
| "b64Less NaN b = False"
| "b64Less (Finite a) NaN = False"
| "b64Less PlusInfinity NaN = False"
| "b64Less MinusInfinity NaN = False"

text \<open>The real value of a binary64 number that has one.\<close>
fun b64Val :: "binary64 \<Rightarrow> real option" where
  "b64Val (Finite a) = Some a"
| "b64Val PlusInfinity = None"
| "b64Val MinusInfinity = None"
| "b64Val NaN = None"

text \<open>The arithmetic of the program.\<close>
definition binary64Arithmetic :: "binary64 arithmetic" where
  "binary64Arithmetic =
    \<lparr>dLit = roundBinary64, dPI = Finite binary64PI, dAdd = b64Add, dSub = b64Sub,
     dMul = b64Mul, dDiv = b64Div, dNeg = b64Neg, dAbs = b64Abs, dSqrt = b64Sqrt,
     dAcos = b64Acos, dAtan2 = b64Atan2, dLess = b64Less, dVal = b64Val\<rparr>"

section \<open>Basic facts\<close>

lemmas keplerianIndices =
  semiMajorAxisIndex_def semiLatusRectumIndex_def eccentricityIndex_def inclinationIndex_def
  longitudeOfAscendingNodeIndex_def argumentOfPeriapsisIndex_def trueAnomalyIndex_def

lemmas unifiedStateModelIndices =
  CHodographIndex_def Rf1HodographIndex_def Rf2HodographIndex_def
  epsilon1QuaternionIndex_def epsilon2QuaternionIndex_def epsilon3QuaternionIndex_def
  etaQuaternionIndex_def

lemmas usmDerived = cosineLambdaOf_def sineLambdaOf_def lambdaOf_def ve1Of_def ve2Of_def
  RHodographOf_def eccentricityOf_def sizeOf_def inclinationOf_def nodeCosineOf_def
  pureRetrograde_def purePrograde_def nodeOf_def trueAnomalyOf_def periapsisOf_def

lemma Zero_six: "Zero 6 = [0, 0, 0, 0, 0, 0]"
  by (simp add: Zero_def numeral_eq_Suc)

lemma Zero_seven: "Zero 7 = [0, 0, 0, 0, 0, 0, 0]"
  by (simp add: Zero_def numeral_eq_Suc)

lemma tolerance_pos: "0 < singularityTolerance"
  by (simp add: singularityTolerance_def)

subsection \<open>What the first function returns\<close>

lemma keplerianToUnifiedStateModel_rejected:
  assumes "k ! inclinationIndex < 0 \<or> PI < k ! inclinationIndex"
  shows "convertKeplerianToUnifiedStateModelElements k mu =
     Inl (RuntimeError
            [Str ''Inclination is expected in range [0,'', Num PI, Str ('']'' @ [CHR 0x0A]),
             Str ''Specified inclination: '', Num (k ! inclinationIndex),
             Str '' rad.'', Endl])"
  using assms by (simp add: convertKeplerianToUnifiedStateModelElements_def)

lemma keplerianToUnifiedStateModel_accepted:
  assumes "0 \<le> k ! inclinationIndex" and "k ! inclinationIndex \<le> PI"
  shows "convertKeplerianToUnifiedStateModelElements k mu =
     Inr [sqrt (mu / semiLatusRectumOf k),
          - (k ! eccentricityIndex * sqrt (mu / semiLatusRectumOf k))
            * sin (k ! longitudeOfAscendingNodeIndex + k ! argumentOfPeriapsisIndex),
          k ! eccentricityIndex * sqrt (mu / semiLatusRectumOf k)
            * cos (k ! longitudeOfAscendingNodeIndex + k ! argumentOfPeriapsisIndex),
          sin (k ! inclinationIndex / 2)
            * cos ((k ! longitudeOfAscendingNodeIndex - argumentOfLongitudeOf k) / 2),
          sin (k ! inclinationIndex / 2)
            * sin ((k ! longitudeOfAscendingNodeIndex - argumentOfLongitudeOf k) / 2),
          cos (k ! inclinationIndex / 2)
            * sin ((k ! longitudeOfAscendingNodeIndex + argumentOfLongitudeOf k) / 2),
          cos (k ! inclinationIndex / 2)
            * cos ((k ! longitudeOfAscendingNodeIndex + argumentOfLongitudeOf k) / 2)]"
  using assms
  by (simp add: convertKeplerianToUnifiedStateModelElements_def Let_def Zero_seven
      unifiedStateModelIndices semiLatusRectumOf_def argumentOfLongitudeOf_def)

lemma keplerianToUnifiedStateModel_returns:
  assumes "convertKeplerianToUnifiedStateModelElements k mu = Inr usm"
  shows "0 \<le> k ! inclinationIndex \<and> k ! inclinationIndex \<le> PI"
proof (rule ccontr)
  assume "\<not> (0 \<le> k ! inclinationIndex \<and> k ! inclinationIndex \<le> PI)"
  then have "k ! inclinationIndex < 0 \<or> PI < k ! inclinationIndex"
    by linarith
  from keplerianToUnifiedStateModel_rejected [OF this, of mu] assms show False
    by simp
qed

subsection \<open>What the second function returns\<close>

lemma unifiedStateModelToKeplerian_singular:
  assumes "pureRetrograde u"
  shows "convertUnifiedStateModelToKeplerianElements u mu =
     Inr (pureRetrogradeDiagnostic, [0, 0, 0, 0, 0, 0])"
  using assms
  by (simp add: convertUnifiedStateModelToKeplerianElements_def pureRetrograde_def Zero_six)

lemma unifiedStateModelToKeplerian_regular:
  assumes "\<not> pureRetrograde u"
  shows "convertUnifiedStateModelToKeplerianElements u mu =
     Inr ([], [sizeOf u mu, eccentricityOf u, inclinationOf u, nodeOf u, periapsisOf u,
               trueAnomalyOf u])"
  using assms
  by (auto simp add: convertUnifiedStateModelToKeplerianElements_def Let_def Zero_six
      usmDerived keplerianIndices)

subsection \<open>The wrapping loop and the arccosine of the node over the reals\<close>

lemma ensurePositive_id: "- singularityTolerance \<le> x \<Longrightarrow> ensurePositive x = x"
  by (subst ensurePositive.simps) simp

lemma nodeCosine_bounded: "- 1 \<le> nodeCosineOf u \<and> nodeCosineOf u \<le> 1"
proof -
  define a where "a = u ! epsilon1QuaternionIndex"
  define b where "b = u ! epsilon2QuaternionIndex"
  define c where "c = u ! epsilon3QuaternionIndex"
  define d where "d = u ! etaQuaternionIndex"
  define s where "s = (a * a + b * b) * (d * d + c * c)"
  have s0: "0 \<le> s"
    unfolding s_def by (rule mult_nonneg_nonneg) simp_all
  have "s - (a * d - b * c)\<^sup>2 = (a * c + b * d)\<^sup>2"
    unfolding s_def by (simp add: power2_eq_square algebra_simps)
  then have "(a * d - b * c)\<^sup>2 \<le> s"
    by (smt (verit) zero_le_power2)
  then have "\<bar>a * d - b * c\<bar> \<le> sqrt s"
    by (metis real_sqrt_abs real_sqrt_le_iff)
  then have q: "\<bar>(a * d - b * c) / sqrt s\<bar> \<le> 1"
    using s0 by (cases "s = 0") (simp_all add: field_simps)
  have "nodeCosineOf u = (a * d - b * c) / sqrt s"
    unfolding nodeCosineOf_def a_def b_def c_def d_def s_def by (rule refl)
  with q show ?thesis
    by linarith
qed

subsection \<open>The second function at concrete inputs\<close>

lemma unifiedStateModelToKeplerian_cases:
  assumes "convertUnifiedStateModelToKeplerianElements u mu = Inr (cerr, kep)"
  shows "(pureRetrograde u \<and> cerr = pureRetrogradeDiagnostic \<and> kep = [0, 0, 0, 0, 0, 0])
         \<or> (\<not> pureRetrograde u \<and> cerr = []
             \<and> kep = [sizeOf u mu, eccentricityOf u, inclinationOf u, nodeOf u, periapsisOf u,
                       trueAnomalyOf u])"
proof (cases "pureRetrograde u")
  case True
  from unifiedStateModelToKeplerian_singular [OF this, of mu] assms True show ?thesis
    by simp
next
  case False
  from unifiedStateModelToKeplerian_regular [OF this, of mu] assms False show ?thesis
    by simp
qed

lemma node_unwrapped:
  "nodeOf u = (if purePrograde u \<or> pureRetrograde u then 0 else arccos (nodeCosineOf u))"
proof -
  have "0 \<le> arccos (nodeCosineOf u)"
    using nodeCosine_bounded [of u] by (simp add: arccos_lbound)
  then have "ensurePositive (arccos (nodeCosineOf u)) = arccos (nodeCosineOf u)"
    using tolerance_pos by (intro ensurePositive_id) linarith
  then show ?thesis
    by (simp add: nodeOf_def)
qed

lemma ensurePositive_step:
  "x < - singularityTolerance \<Longrightarrow> ensurePositive x = ensurePositive (x + 2 * PI)"
  by (subst ensurePositive.simps) simp

lemma tolerance_less_one: "singularityTolerance < 1"
  by (simp add: singularityTolerance_def)

lemma eccentric_example:
  "convertUnifiedStateModelToKeplerianElements [1, 0, 1 / 2, 1 / 2, 1 / 2, 1 / 2, 1 / 2] 1
     = Inr ([], [4 / 3, 1 / 2, pi / 2, pi / 2, 3 * pi / 2, pi / 2])"
proof -
  let ?u = "[1, 0, 1 / 2, 1 / 2, 1 / 2, 1 / 2, 1 / 2 :: real]"
  have reg: "\<not> pureRetrograde ?u" and np: "\<not> purePrograde ?u"
    by (simp_all add: pureRetrograde_def purePrograde_def unifiedStateModelIndices
        singularityTolerance_def)
  have c: "cosineLambdaOf ?u = 0" and s: "sineLambdaOf ?u = 1"
    by (simp_all add: cosineLambdaOf_def sineLambdaOf_def unifiedStateModelIndices)
  have l: "lambdaOf ?u = pi / 2"
    by (simp add: lambdaOf_def c s atan2_def)
  have R: "RHodographOf ?u = 1 / 2"
    by (simp add: RHodographOf_def unifiedStateModelIndices real_sqrt_divide)
  have e: "eccentricityOf ?u = 1 / 2"
    by (simp add: eccentricityOf_def R unifiedStateModelIndices)
  have v: "ve1Of ?u = 1 / 2" "ve2Of ?u = 1"
    by (simp_all add: ve1Of_def ve2Of_def c s unifiedStateModelIndices)
  have a: "sizeOf ?u 1 = 4 / 3"
    by (simp add: sizeOf_def e v singularityTolerance_def unifiedStateModelIndices)
  have i: "inclinationOf ?u = pi / 2"
    by (simp add: inclinationOf_def unifiedStateModelIndices)
  have "nodeCosineOf ?u = 0"
    by (simp add: nodeCosineOf_def unifiedStateModelIndices)
  then have n: "nodeOf ?u = pi / 2"
    using reg np by (simp add: node_unwrapped)
  have notcirc: "\<not> \<bar>RHodographOf ?u\<bar> < singularityTolerance"
    by (simp add: R singularityTolerance_def)
  have "ensurePositive (pi / 2) = pi / 2"
    using tolerance_pos pi_gt_zero by (intro ensurePositive_id) linarith
  then have t: "trueAnomalyOf ?u = pi / 2"
    using notcirc by (simp add: trueAnomalyOf_def R v unifiedStateModelIndices)
  have "- (pi / 2) < - singularityTolerance"
    using tolerance_less_one pi_ge_two by linarith
  then have "ensurePositive (- (pi / 2)) = ensurePositive (- (pi / 2) + 2 * PI)"
    by (rule ensurePositive_step)
  also have "- (pi / 2) + 2 * PI = 3 * pi / 2"
    by (simp add: PI_def)
  also have "ensurePositive (3 * pi / 2) = 3 * pi / 2"
    using tolerance_pos pi_gt_zero by (intro ensurePositive_id) linarith
  finally have p: "periapsisOf ?u = 3 * pi / 2"
    using notcirc by (simp add: periapsisOf_def l n t)
  show ?thesis
    unfolding unifiedStateModelToKeplerian_regular [OF reg] a e i n p t by (rule refl)
qed

section \<open>The second function on doubles\<close>

subsection \<open>What it returns\<close>

lemmas inDoubles = pureRetrogradeInDoubles_def pureProgradeInDoubles_def
  cosineLambdaInDoubles_def sineLambdaInDoubles_def lambdaInDoubles_def ve1InDoubles_def
  ve2InDoubles_def RHodographInDoubles_def circularInDoubles_def eccentricityInDoubles_def
  sizeInDoubles_def inclinationInDoubles_def nodeCosineInDoubles_def
  anomalyCosineInDoubles_def nodeInDoubles_def trueAnomalyInDoubles_def periapsisInDoubles_def

lemma replicate_six: "replicate 6 x = [x, x, x, x, x, x]"
  by (simp add: numeral_eq_Suc)

lemma inDoubles_singular:
  assumes "pureRetrogradeInDoubles A u"
  shows "convertUnifiedStateModelToKeplerianElementsInDoubles A u mu =
     Some (Inr (pureRetrogradeDiagnostic, replicate 6 (dLit A 0)))"
  using assms
  by (simp add: convertUnifiedStateModelToKeplerianElementsInDoubles_def
      pureRetrogradeInDoubles_def Let_def)

lemma inDoubles_regular:
  assumes "\<not> pureRetrogradeInDoubles A u"
  shows "convertUnifiedStateModelToKeplerianElementsInDoubles A u mu =
     do {
       node \<leftarrow> nodeInDoubles A u;
       anomaly \<leftarrow> trueAnomalyInDoubles A u node;
       periapsis \<leftarrow> periapsisInDoubles A u node anomaly;
       Some (Inr ([], [sizeInDoubles A u mu, eccentricityInDoubles A u,
                       inclinationInDoubles A u, node, periapsis, anomaly]))
     }"
  using assms
  by (auto simp add: convertUnifiedStateModelToKeplerianElementsInDoubles_def Let_def
      replicate_six inDoubles keplerianIndices split: bind_splits option.splits)

subsection \<open>The range of the angles in an arithmetic of doubles\<close>

text \<open>
  In every arithmetic with the properties \<open>doubleArithmetic\<close>, an angle of the result that
  has a real value lies between the bounds of the source: the node in \<open>[0, PI]\<close>, the
  argument of periapsis and the true anomaly in \<open>[- singularityTolerance, 2.0 * PI]\<close>.
\<close>

lemma doubleArithmeticD:
  assumes "doubleArithmetic A t p tp"
  shows "dVal A (dLit A 0) = Some 0"
    and "dVal A (toleranceInDoubles A) = Some t" and "0 < t"
    and "dVal A (dNeg A (toleranceInDoubles A)) = Some (- t)"
    and "dVal A (dPI A) = Some p" and "0 \<le> p"
    and "dVal A (twoPiInDoubles A) = Some tp" and "p \<le> tp"
    and "\<And>a b ra rb. dVal A a = Some ra \<Longrightarrow> dVal A b = Some rb \<Longrightarrow> dLess A a b = (ra < rb)"
    and "\<And>a r. dVal A (dAdd A a (twoPiInDoubles A)) = Some r
           \<Longrightarrow> \<exists>ra. dVal A a = Some ra \<and> (ra \<le> 0 \<longrightarrow> r \<le> tp)"
    and "\<And>a b r. dVal A (dSub A a b) = Some r
           \<Longrightarrow> \<exists>ra rb. dVal A a = Some ra \<and> dVal A b = Some rb \<and> (ra - rb \<le> p \<longrightarrow> r \<le> p)"
    and "\<And>x r. dVal A (dAcos A x) = Some r \<Longrightarrow> 0 \<le> r \<and> r \<le> p"
    and "\<And>y x r. dVal A (dAtan2 A y x) = Some r \<Longrightarrow> r \<le> p"
    and "tp < 2 * pi"
  using assms unfolding doubleArithmetic_def by blast+

lemma ensurePositiveInDoubles_id:
  assumes A: "doubleArithmetic A t p tp"
    and x: "dVal A x = Some rx" and lo: "- t \<le> rx"
  shows "ensurePositiveInDoubles A x = Some x"
proof -
  have "dLess A x (dNeg A (toleranceInDoubles A)) = (rx < - t)"
    by (rule doubleArithmeticD(9) [OF A x doubleArithmeticD(4) [OF A]])
  with lo show ?thesis
    by (subst ensurePositiveInDoubles.simps) simp
qed

lemma ensurePositiveInDoubles_result:
  assumes A: "doubleArithmetic A t p tp"
    and run: "ensurePositiveInDoubles A x = Some y"
    and y: "dVal A y = Some r"
  shows "- t \<le> r \<and> (\<exists>rx. dVal A x = Some rx \<and> (r = rx \<or> r \<le> tp))"
proof -
  let ?P = "\<lambda>A x y. doubleArithmetic A t p tp \<longrightarrow>
    (\<forall>r. dVal A y = Some r \<longrightarrow> - t \<le> r \<and> (\<exists>rx. dVal A x = Some rx \<and> (r = rx \<or> r \<le> tp)))"
  note induct = ensurePositiveInDoubles.raw_induct
    [where P = ?P and xa = "(A, x)" and y = y, unfolded prod.case]
  have "?P A x y"
  proof (rule induct)
    show "ensurePositiveInDoubles A x = Some y"
      by (rule run)
  next
    fix loop :: "'a arithmetic \<Rightarrow> 'a \<Rightarrow> 'a option" and A x y
    assume IH: "\<And>A x y. loop A x = Some y \<Longrightarrow> ?P A x y"
      and body: "(if dLess A x (dNeg A (toleranceInDoubles A))
                  then loop A (dAdd A x (twoPiInDoubles A)) else Some x) = Some y"
    show "?P A x y"
    proof (intro impI allI)
      fix r
      assume A: "doubleArithmetic A t p tp" and y: "dVal A y = Some r"
      show "- t \<le> r \<and> (\<exists>rx. dVal A x = Some rx \<and> (r = rx \<or> r \<le> tp))"
      proof (cases "dLess A x (dNeg A (toleranceInDoubles A))")
        case False
        with body have "y = x"
          by simp
        with y have x: "dVal A x = Some r"
          by simp
        from False doubleArithmeticD(9) [OF A x doubleArithmeticD(4) [OF A]]
        have "- t \<le> r"
          by simp
        with x show ?thesis
          by simp
      next
        case True
        with body have "loop A (dAdd A x (twoPiInDoubles A)) = Some y"
          by simp
        from IH [OF this] A y
        obtain r' where lo: "- t \<le> r"
          and r': "dVal A (dAdd A x (twoPiInDoubles A)) = Some r'"
          and or: "r = r' \<or> r \<le> tp"
          by blast
        from doubleArithmeticD(10) [OF A r']
        obtain rx where x: "dVal A x = Some rx" and step: "rx \<le> 0 \<longrightarrow> r' \<le> tp"
          by blast
        from True doubleArithmeticD(9) [OF A x doubleArithmeticD(4) [OF A]]
        have "rx < - t"
          by simp
        with doubleArithmeticD(3) [OF A] step have "r' \<le> tp"
          by simp
        with or have "r \<le> tp"
          by auto
        with lo x show ?thesis
          by simp
      qed
    qed
  qed
  with A y show ?thesis
    by blast
qed

lemma nodeInDoubles_range:
  assumes A: "doubleArithmetic A t p tp"
    and n: "nodeInDoubles A u = Some node" and v: "dVal A node = Some r"
  shows "0 \<le> r \<and> r \<le> p"
proof (cases "pureProgradeInDoubles A u \<or> pureRetrogradeInDoubles A u")
  case True
  with n have "node = dLit A 0"
    by (simp add: nodeInDoubles_def)
  with v doubleArithmeticD(1,6) [OF A] show ?thesis
    by simp
next
  case False
  with n have run: "ensurePositiveInDoubles A (dAcos A (nodeCosineInDoubles A u)) = Some node"
    by (simp add: nodeInDoubles_def)
  from ensurePositiveInDoubles_result [OF A run v]
  obtain rx where x: "dVal A (dAcos A (nodeCosineInDoubles A u)) = Some rx"
    by blast
  from doubleArithmeticD(12) [OF A x] have rx: "0 \<le> rx" "rx \<le> p"
    by simp_all
  with doubleArithmeticD(3) [OF A] have "- t \<le> rx"
    by simp
  from ensurePositiveInDoubles_id [OF A x this] run
  have "node = dAcos A (nodeCosineInDoubles A u)"
    by simp
  with v x rx show ?thesis
    by simp
qed

lemma trueAnomalyInDoubles_range:
  assumes A: "doubleArithmetic A t p tp"
    and n: "nodeInDoubles A u = Some node"
    and a: "trueAnomalyInDoubles A u node = Some anomaly" and v: "dVal A anomaly = Some r"
  shows "- t \<le> r \<and> r \<le> tp \<and> (\<not> circularInDoubles A u \<longrightarrow> 0 \<le> r)"
proof (cases "circularInDoubles A u")
  case True
  with a have run: "ensurePositiveInDoubles A (dSub A (lambdaInDoubles A u) node) = Some anomaly"
    by (simp add: trueAnomalyInDoubles_def)
  from ensurePositiveInDoubles_result [OF A run v]
  obtain rx where lo: "- t \<le> r"
    and x: "dVal A (dSub A (lambdaInDoubles A u) node) = Some rx"
    and or: "r = rx \<or> r \<le> tp"
    by blast
  from doubleArithmeticD(11) [OF A x]
  obtain rl rn where l: "dVal A (lambdaInDoubles A u) = Some rl"
    and nv: "dVal A node = Some rn" and step: "rl - rn \<le> p \<longrightarrow> rx \<le> p"
    by blast
  from doubleArithmeticD(13) [OF A l [unfolded lambdaInDoubles_def]] have "rl \<le> p" .
  moreover from nodeInDoubles_range [OF A n nv] have "0 \<le> rn"
    by simp
  ultimately have "rx \<le> p"
    using step by simp
  with or doubleArithmeticD(8) [OF A] have "r \<le> tp"
    by auto
  with lo True show ?thesis
    by simp
next
  case False
  with a have run:
    "ensurePositiveInDoubles A (dAcos A (anomalyCosineInDoubles A u)) = Some anomaly"
    by (simp add: trueAnomalyInDoubles_def)
  from ensurePositiveInDoubles_result [OF A run v]
  obtain rx where x: "dVal A (dAcos A (anomalyCosineInDoubles A u)) = Some rx"
    by blast
  from doubleArithmeticD(12) [OF A x] have rx: "0 \<le> rx" "rx \<le> p"
    by simp_all
  with doubleArithmeticD(3) [OF A] have "- t \<le> rx"
    by simp
  from ensurePositiveInDoubles_id [OF A x this] run
  have "anomaly = dAcos A (anomalyCosineInDoubles A u)"
    by simp
  with v x rx doubleArithmeticD(3,8) [OF A] show ?thesis
    by simp
qed

lemma periapsisInDoubles_range:
  assumes A: "doubleArithmetic A t p tp"
    and n: "nodeInDoubles A u = Some node"
    and a: "trueAnomalyInDoubles A u node = Some anomaly"
    and w: "periapsisInDoubles A u node anomaly = Some periapsis"
    and v: "dVal A periapsis = Some r"
  shows "- t \<le> r \<and> r \<le> tp"
proof (cases "circularInDoubles A u")
  case True
  with w have "periapsis = dLit A 0"
    by (simp add: periapsisInDoubles_def)
  with v doubleArithmeticD(1,3,6,8) [OF A] show ?thesis
    by simp
next
  case False
  with w have run:
    "ensurePositiveInDoubles A (dSub A (dSub A (lambdaInDoubles A u) node) anomaly)
       = Some periapsis"
    by (simp add: periapsisInDoubles_def)
  from ensurePositiveInDoubles_result [OF A run v]
  obtain rx where lo: "- t \<le> r"
    and x: "dVal A (dSub A (dSub A (lambdaInDoubles A u) node) anomaly) = Some rx"
    and or: "r = rx \<or> r \<le> tp"
    by blast
  from doubleArithmeticD(11) [OF A x]
  obtain rd ra where d: "dVal A (dSub A (lambdaInDoubles A u) node) = Some rd"
    and av: "dVal A anomaly = Some ra" and step2: "rd - ra \<le> p \<longrightarrow> rx \<le> p"
    by blast
  from doubleArithmeticD(11) [OF A d]
  obtain rl rn where l: "dVal A (lambdaInDoubles A u) = Some rl"
    and nv: "dVal A node = Some rn" and step1: "rl - rn \<le> p \<longrightarrow> rd \<le> p"
    by blast
  from doubleArithmeticD(13) [OF A l [unfolded lambdaInDoubles_def]] have "rl \<le> p" .
  moreover from nodeInDoubles_range [OF A n nv] have "0 \<le> rn"
    by simp
  ultimately have "rd \<le> p"
    using step1 by simp
  moreover from trueAnomalyInDoubles_range [OF A n a av] False have "0 \<le> ra"
    by simp
  ultimately have "rx \<le> p"
    using step2 by simp
  with or doubleArithmeticD(8) [OF A] have "r \<le> tp"
    by auto
  with lo show ?thesis
    by simp
qed

lemma inDoubles_cases:
  assumes "convertUnifiedStateModelToKeplerianElementsInDoubles A u mu = Some (Inr (cerr, kep))"
  shows "(pureRetrogradeInDoubles A u \<and> cerr = pureRetrogradeDiagnostic
          \<and> kep = replicate 6 (dLit A 0))
         \<or> (\<not> pureRetrogradeInDoubles A u \<and> cerr = []
             \<and> (\<exists>node anomaly periapsis.
                   nodeInDoubles A u = Some node
                   \<and> trueAnomalyInDoubles A u node = Some anomaly
                   \<and> periapsisInDoubles A u node anomaly = Some periapsis
                   \<and> kep = [sizeInDoubles A u mu, eccentricityInDoubles A u,
                            inclinationInDoubles A u, node, periapsis, anomaly]))"
proof (cases "pureRetrogradeInDoubles A u")
  case True
  from inDoubles_singular [OF this, of mu] assms True show ?thesis
    by simp
next
  case False
  from assms [unfolded inDoubles_regular [OF False]] False show ?thesis
    by (auto split: bind_splits)
qed

lemma inDoubles_angles:
  assumes A: "doubleArithmetic A t p tp"
    and len: "length u = 7"
    and ret: "convertUnifiedStateModelToKeplerianElementsInDoubles A u mu = Some (Inr (cerr, kep))"
  shows "(\<forall>r. dVal A (kep ! longitudeOfAscendingNodeIndex) = Some r \<longrightarrow> 0 \<le> r \<and> r < 2 * pi)
         \<and> (\<forall>r. dVal A (kep ! argumentOfPeriapsisIndex) = Some r \<longrightarrow> - t \<le> r \<and> r < 2 * pi)
         \<and> (\<forall>r. dVal A (kep ! trueAnomalyIndex) = Some r \<longrightarrow> - t \<le> r \<and> r < 2 * pi)"
  using inDoubles_cases [OF ret]
proof (elim disjE conjE exE)
  assume "kep = replicate 6 (dLit A 0)"
  then show ?thesis
    using doubleArithmeticD(1,3,6,8,14) [OF A] by (simp add: replicate_six keplerianIndices)
next
  fix node anomaly periapsis
  assume n: "nodeInDoubles A u = Some node"
    and a: "trueAnomalyInDoubles A u node = Some anomaly"
    and w: "periapsisInDoubles A u node anomaly = Some periapsis"
    and kep: "kep = [sizeInDoubles A u mu, eccentricityInDoubles A u,
                     inclinationInDoubles A u, node, periapsis, anomaly]"
  have "kep ! longitudeOfAscendingNodeIndex = node"
    "kep ! argumentOfPeriapsisIndex = periapsis" "kep ! trueAnomalyIndex = anomaly"
    unfolding kep by (simp_all add: keplerianIndices)
  then show ?thesis
    using nodeInDoubles_range [OF A n] trueAnomalyInDoubles_range [OF A n a]
      periapsisInDoubles_range [OF A n a w] doubleArithmeticD(8,14) [OF A]
    by fastforce
qed

section \<open>Rounding to binary64\<close>

lemma roundToEven_of_int [simp]: "roundToEven (of_int m) = m"
  by (simp add: roundToEven_def)

lemma roundToEven_numeral [simp]: "roundToEven (numeral k) = numeral k"
  using roundToEven_of_int [of "numeral k"] by simp

lemma roundToEven_mono:
  assumes "x \<le> y"
  shows "roundToEven x \<le> roundToEven y"
proof (cases "\<lfloor>x\<rfloor> = \<lfloor>y\<rfloor>")
  case True
  with assms show ?thesis
    unfolding roundToEven_def by (auto simp add: True)
next
  case False
  with assms have "\<lfloor>x\<rfloor> + 1 \<le> \<lfloor>y\<rfloor>"
    using floor_mono [OF assms] by linarith
  moreover have "roundToEven x \<le> \<lfloor>x\<rfloor> + 1" and "\<lfloor>y\<rfloor> \<le> roundToEven y"
    unfolding roundToEven_def by auto
  ultimately show ?thesis
    by linarith
qed

lemma roundToEven_nearest:
  assumes "of_int m - 1 / 2 < x" and "x < of_int m + 1 / 2"
  shows "roundToEven x = m"
proof (cases "of_int m \<le> x")
  case True
  with assms have "\<lfloor>x\<rfloor> = m"
    by (intro floor_unique) linarith+
  with assms show ?thesis
    by (simp add: roundToEven_def)
next
  case False
  with assms have "real_of_int (m - 1) \<le> x" and "x < real_of_int (m - 1) + 1"
    by simp_all
  then have f: "\<lfloor>x\<rfloor> = m - 1"
    by (rule floor_unique)
  with assms show ?thesis
    by (simp add: roundToEven_def)
qed

lemma binadeOf_eq:
  assumes "2 powr of_int e \<le> \<bar>x\<bar>" and "\<bar>x\<bar> < 2 powr (of_int e + 1)" and "- 1022 \<le> e"
  shows "binadeOf x = e"
proof -
  have "0 < \<bar>x\<bar>"
    using assms(1) by (smt (verit) powr_gt_zero)
  then have "\<lfloor>log 2 \<bar>x\<bar>\<rfloor> = e"
    using assms(1,2) by (simp add: floor_log_eq_powr_iff)
  with assms(3) show ?thesis
    by (simp add: binadeOf_def)
qed

lemma roundBinary64_scaled:
  assumes lo: "2 ^ 52 \<le> \<bar>x\<bar> * 2 ^ n" and hi: "\<bar>x\<bar> * 2 ^ n < 2 ^ 53" and n: "n \<le> 1074"
  shows "roundBinary64 x = Finite (of_int (roundToEven (x * 2 ^ n)) / 2 ^ n)"
proof -
  have x: "x \<noteq> 0"
    using lo by auto
  have p: "(2::real) powr (of_int (52 - int n)) = 2 ^ 52 / 2 ^ n"
    by (simp add: powr_diff powr_realpow)
  have p1: "(2::real) powr (of_int (52 - int n) + 1) = 2 ^ 53 / 2 ^ n"
    by (simp add: powr_diff powr_add powr_realpow)
  have b: "binadeOf x = 52 - int n"
  proof (rule binadeOf_eq)
    show "2 powr of_int (52 - int n) \<le> \<bar>x\<bar>"
      unfolding p using lo by (simp add: field_simps)
    show "\<bar>x\<bar> < 2 powr (of_int (52 - int n) + 1)"
      unfolding p1 using hi by (simp add: field_simps)
    show "- 1022 \<le> 52 - int n"
      using n by simp
  qed
  have ulp: "(2::real) powr (of_int (binadeOf x) - 52) = 1 / 2 ^ n"
    unfolding b by (simp add: powr_minus powr_realpow field_simps)
  have "\<bar>x * 2 ^ n\<bar> < 2 ^ 53"
    using hi by (simp add: abs_mult)
  then have "- (2 ^ 53) \<le> x * 2 ^ n" "x * 2 ^ n \<le> 2 ^ 53"
    by linarith+
  from roundToEven_mono [OF this(1)] roundToEven_mono [OF this(2)]
  have "- (2 ^ 53) \<le> roundToEven (x * 2 ^ n)" "roundToEven (x * 2 ^ n) \<le> 2 ^ 53"
    using roundToEven_of_int [of "2 ^ 53"] roundToEven_of_int [of "- (2 ^ 53)"] by simp_all
  then have "\<bar>real_of_int (roundToEven (x * 2 ^ n))\<bar> \<le> 2 ^ 53"
    by (simp add: abs_le_iff of_int_le_iff [symmetric] del: of_int_le_iff)
  moreover have "(1::real) \<le> 2 ^ n"
    by simp
  ultimately have "\<bar>real_of_int (roundToEven (x * 2 ^ n))\<bar> / 2 ^ n \<le> 2 ^ 53"
    by (smt (verit) divide_le_eq_1_pos frac_le zero_le_power abs_ge_zero div_by_1)
  also have "(2::real) ^ 53 < 2 ^ 1024"
    by simp
  finally have small: "\<bar>real_of_int (roundToEven (x * 2 ^ n)) / 2 ^ n\<bar> < 2 ^ 1024"
    by simp
  show ?thesis
    using x small by (simp add: roundBinary64_def Let_def ulp)
qed

lemma roundBinary64_value:
  assumes "roundBinary64 x = Finite r"
  shows "r = of_int (roundToEven (x / 2 powr (of_int (binadeOf x) - 52)))
             * 2 powr (of_int (binadeOf x) - 52)"
proof (cases "x = 0")
  case True
  with assms show ?thesis
    using roundToEven_of_int [of 0] by (simp add: roundBinary64_def)
next
  case False
  with assms show ?thesis
    by (auto simp add: roundBinary64_def Let_def split: if_splits)
qed

lemma roundBinary64_nonneg:
  assumes "0 \<le> x" and "roundBinary64 x = Finite r"
  shows "0 \<le> r"
proof -
  have "0 \<le> x / 2 powr (of_int (binadeOf x) - 52)"
    using assms(1) by simp
  from roundToEven_mono [OF this] have "0 \<le> roundToEven (x / 2 powr (of_int (binadeOf x) - 52))"
    using roundToEven_of_int [of 0] by simp
  then show ?thesis
    unfolding roundBinary64_value [OF assms(2)] by simp
qed

lemma binadeOf_mono:
  assumes "0 < x" and "x \<le> y"
  shows "binadeOf x \<le> binadeOf y"
proof -
  have "log 2 \<bar>x\<bar> \<le> log 2 \<bar>y\<bar>"
    using assms by simp
  then have "\<lfloor>log 2 \<bar>x\<bar>\<rfloor> \<le> \<lfloor>log 2 \<bar>y\<bar>\<rfloor>"
    by (rule floor_mono)
  then show ?thesis
    by (simp add: binadeOf_def)
qed

lemma below_next_binade:
  assumes "0 < x"
  shows "x < 2 powr (of_int (binadeOf x) + 1)"
proof -
  have "log 2 x < of_int \<lfloor>log 2 x\<rfloor> + 1"
    by linarith
  also have "\<dots> \<le> of_int (binadeOf x) + 1"
    using assms by (simp add: binadeOf_def)
  finally have "log 2 x < of_int (binadeOf x) + 1" .
  then show ?thesis
    using assms by (simp add: log_less_iff)
qed

lemma roundToEven_minus: "roundToEven (- x) = - roundToEven x"
proof (cases "x = of_int \<lfloor>x\<rfloor>")
  case True
  then obtain m where x: "x = of_int m"
    by blast
  have "roundToEven (of_int (- m)) = - m"
    by (rule roundToEven_of_int)
  then show ?thesis
    unfolding x by simp
next
  case False
  define f where "f = \<lfloor>x\<rfloor>"
  define d where "d = x - of_int f"
  have d: "0 < d" "d < 1"
    using False unfolding d_def f_def by linarith+
  have x: "x = of_int f + d"
    by (simp add: d_def)
  have fl: "\<lfloor>x\<rfloor> = f"
    by (simp add: f_def)
  have flm: "\<lfloor>- x\<rfloor> = - f - 1"
    unfolding x using d by (intro floor_unique) simp_all
  have one: "roundToEven x
    = (if d < 1 / 2 then f else if 1 / 2 < d then f + 1 else if even f then f else f + 1)"
    unfolding roundToEven_def fl by (simp add: d_def)
  have two: "roundToEven (- x)
    = (if 1 - d < 1 / 2 then - f - 1 else if 1 / 2 < 1 - d then - f
       else if even (- f - 1) then - f - 1 else - f)"
    unfolding roundToEven_def flm by (simp add: x)
  show ?thesis
    unfolding one two by auto
qed

lemma binadeOf_minus: "binadeOf (- x) = binadeOf x"
  by (simp add: binadeOf_def)

lemma nearest_le:
  assumes le: "x \<le> c" and pos: "0 < c"
    and rep: "c = of_int m * 2 powr (of_int (binadeOf c) - 52)"
    and normal: "2 powr of_int (binadeOf c) \<le> c"
  shows "of_int (roundToEven (x / 2 powr (of_int (binadeOf x) - 52)))
           * 2 powr (of_int (binadeOf x) - 52) \<le> c"
proof -
  let ?u = "2 powr (of_int (binadeOf x) - 52) :: real"
  have u: "0 < ?u"
    by simp
  show ?thesis
  proof (cases "x \<le> 0")
    case True
    then have "x / ?u \<le> 0"
      by (simp add: divide_le_0_iff)
    from roundToEven_mono [OF this] have "roundToEven (x / ?u) \<le> 0"
      using roundToEven_of_int [of 0] by simp
    then have "of_int (roundToEven (x / ?u)) * ?u \<le> 0"
      by (simp add: mult_le_0_iff)
    with pos show ?thesis
      by simp
  next
    case False
    then have x: "0 < x"
      by simp
    have bx: "binadeOf x \<le> binadeOf c"
      using x le by (rule binadeOf_mono)
    show ?thesis
    proof (cases "binadeOf x = binadeOf c")
      case True
      have "x / ?u \<le> c / ?u"
        using le u by (simp add: divide_right_mono)
      also have "c / ?u = of_int m"
      proof -
        have "c / ?u = of_int m * ?u / ?u"
          using rep unfolding True by simp
        then show ?thesis
          by simp
      qed
      finally have "roundToEven (x / ?u) \<le> m"
        using roundToEven_mono [of "x / ?u" "of_int m"] by simp
      then have "of_int (roundToEven (x / ?u)) * ?u \<le> of_int m * ?u"
        using u by (simp add: mult_right_mono)
      with rep True show ?thesis
        by simp
    next
      case False
      with bx have less: "binadeOf x + 1 \<le> binadeOf c"
        by simp
      have "x / ?u < 2 powr (of_int (binadeOf x) + 1) / ?u"
        using below_next_binade [OF x] u by (simp add: divide_strict_right_mono)
      also have "2 powr (of_int (binadeOf x) + 1) / ?u = 2 powr 53"
        by (simp add: powr_diff [symmetric])
      also have "(2::real) powr 53 = of_int (2 ^ 53)"
        using powr_realpow [of 2 53] by simp
      finally have "x / ?u \<le> of_int (2 ^ 53)"
        by simp
      from roundToEven_mono [OF this] have "roundToEven (x / ?u) \<le> 2 ^ 53"
        by simp
      then have "real_of_int (roundToEven (x / ?u)) \<le> 2 ^ 53"
        by (metis of_int_le_iff of_int_numeral of_int_power)
      then have "of_int (roundToEven (x / ?u)) * ?u \<le> 2 ^ 53 * ?u"
        using u by (simp add: mult_right_mono)
      also have "2 ^ 53 * ?u = 2 powr (of_int (binadeOf x) + 1)"
        using powr_realpow [of 2 53] by (simp add: powr_diff powr_add)
      also have "\<dots> \<le> 2 powr of_int (binadeOf c)"
        using less by (intro powr_mono) simp_all
      also note normal
      finally show ?thesis
        by simp
    qed
  qed
qed

lemma nearest_ge:
  assumes ge: "- c \<le> x" and pos: "0 < c"
    and rep: "c = of_int m * 2 powr (of_int (binadeOf c) - 52)"
    and normal: "2 powr of_int (binadeOf c) \<le> c"
  shows "- c \<le> of_int (roundToEven (x / 2 powr (of_int (binadeOf x) - 52)))
           * 2 powr (of_int (binadeOf x) - 52)"
proof -
  have "- x \<le> c"
    using ge by simp
  from nearest_le [OF this pos rep normal] show ?thesis
    by (simp add: binadeOf_minus roundToEven_minus)
qed

lemma roundBinary64_le:
  assumes le: "x \<le> c" and pos: "0 < c"
    and rep: "c = of_int m * 2 powr (of_int (binadeOf c) - 52)"
    and normal: "2 powr of_int (binadeOf c) \<le> c"
    and r: "roundBinary64 x = Finite r"
  shows "r \<le> c"
  using nearest_le [OF le pos rep normal] roundBinary64_value [OF r] by simp

lemma roundBinary64_within:
  assumes lo: "- c \<le> x" and hi: "x \<le> c" and pos: "0 < c"
    and rep: "c = of_int m * 2 powr (of_int (binadeOf c) - 52)"
    and normal: "2 powr of_int (binadeOf c) \<le> c"
    and small: "c < 2 ^ 1024"
  shows "\<exists>r. roundBinary64 x = Finite r \<and> - c \<le> r \<and> r \<le> c"
proof -
  let ?y = "of_int (roundToEven (x / 2 powr (of_int (binadeOf x) - 52)))
              * 2 powr (of_int (binadeOf x) - 52) :: real"
  have y: "- c \<le> ?y" "?y \<le> c"
    using nearest_ge [OF lo pos rep normal] nearest_le [OF hi pos rep normal] by simp_all
  then have "\<bar>?y\<bar> < 2 ^ 1024"
    using small by linarith
  then have "roundBinary64 x = (if x = 0 then Finite 0 else Finite ?y)"
    by (simp add: roundBinary64_def Let_def)
  with y pos show ?thesis
    by (cases "x = 0") simp_all
qed

subsection \<open>The constants of the program and the properties of the arithmetic\<close>

lemma round_zero [simp]: "roundBinary64 0 = Finite 0"
  by (simp add: roundBinary64_def)

lemma round_one [simp]: "roundBinary64 1 = Finite 1"
  by (subst roundBinary64_scaled [where n = 52]) simp_all

lemma round_tolerance:
  "roundBinary64 (1 / 10 ^ 15)
   = Finite (2535301200456459 / 2535301200456458802993406410752)"
  by (subst roundBinary64_scaled [where n = 102]) (simp_all add: roundToEven_def)

lemma binary64_fields [simp]:
  "dLit binary64Arithmetic = roundBinary64" "dPI binary64Arithmetic = Finite binary64PI"
  "dAdd binary64Arithmetic = b64Add" "dSub binary64Arithmetic = b64Sub"
  "dMul binary64Arithmetic = b64Mul" "dDiv binary64Arithmetic = b64Div"
  "dNeg binary64Arithmetic = b64Neg" "dAbs binary64Arithmetic = b64Abs"
  "dSqrt binary64Arithmetic = b64Sqrt" "dAcos binary64Arithmetic = b64Acos"
  "dAtan2 binary64Arithmetic = b64Atan2" "dLess binary64Arithmetic = b64Less"
  "dVal binary64Arithmetic = b64Val"
  by (simp_all add: binary64Arithmetic_def)

lemma binary64_tolerance:
  "toleranceInDoubles binary64Arithmetic
   = Finite (2535301200456459 / 2535301200456458802993406410752)"
  unfolding toleranceInDoubles_def binary64_fields by (rule round_tolerance)

lemma binary64_loop_nan: "ensurePositiveInDoubles binary64Arithmetic NaN = Some NaN"
  by (subst ensurePositiveInDoubles.simps) simp

lemma arctan_terms_decrease:
  fixes x :: real
  assumes "0 \<le> x" and "x \<le> 1"
  shows "1 / real (Suc n * 2 + 1) * x ^ (Suc n * 2 + 1) \<le> 1 / real (n * 2 + 1) * x ^ (n * 2 + 1)"
proof (rule mult_mono)
  show "1 / real (Suc n * 2 + 1) \<le> 1 / real (n * 2 + 1)"
    by (simp add: divide_simps)
  show "x ^ (Suc n * 2 + 1) \<le> x ^ (n * 2 + 1)"
    using assms by (intro power_decreasing) simp_all
  show "0 \<le> 1 / real (n * 2 + 1)"
    by simp
  show "0 \<le> x ^ (Suc n * 2 + 1)"
    using assms by simp
qed

lemma arctan_partial_sums:
  fixes x :: real
  assumes "0 \<le> x" and "x \<le> 1"
  shows "(\<Sum>i<2 * n. (- 1) ^ i * (1 / real (i * 2 + 1) * x ^ (i * 2 + 1))) \<le> arctan x"
    and "arctan x \<le> (\<Sum>i<2 * n + 1. (- 1) ^ i * (1 / real (i * 2 + 1) * x ^ (i * 2 + 1)))"
proof -
  let ?a = "\<lambda>n. 1 / real (n * 2 + 1) * x ^ (n * 2 + 1)"
  have zero: "?a \<longlonglongrightarrow> 0"
    using assms by (intro zeroseq_arctan_series) simp
  have pos: "\<And>n. 0 \<le> ?a n"
    using assms by simp
  have mono: "\<And>n. ?a (Suc n) \<le> ?a n"
    using assms by (rule arctan_terms_decrease)
  have series: "arctan x = (\<Sum>k. (- 1) ^ k * ?a k)"
    using assms by (intro arctan_series) simp
  show "(\<Sum>i<2 * n. (- 1) ^ i * ?a i) \<le> arctan x"
    using summable_Leibniz'(2) [of ?a n, OF zero pos mono] series by simp
  show "arctan x \<le> (\<Sum>i<2 * n + 1. (- 1) ^ i * ?a i)"
    using summable_Leibniz'(4) [of ?a n, OF zero pos mono] series by simp
qed

lemma arctan_fifth_lower:
  "157490522761940959144868 / 797842276096343994140625 \<le> arctan (1 / 5 :: real)"
  using arctan_partial_sums(1) [of "1 / 5" 6] by (simp add: numeral_eq_Suc)

lemma arctan_239_upper:
  "arctan (1 / 239 :: real) \<le> 48941844013 / 11697168977985"
  using arctan_partial_sums(2) [of "1 / 239" 1] by (simp add: numeral_eq_Suc)

lemma binary64PI_less_pi: "binary64PI < pi"
proof -
  have "pi = 16 * arctan (1 / 5) - 4 * arctan (1 / 239)"
    using machin by simp
  with arctan_fifth_lower arctan_239_upper show ?thesis
    by (simp add: binary64PI_def)
qed

lemma round_two: "roundBinary64 2 = Finite 2"
  by (subst roundBinary64_scaled [where n = 51]) simp_all

lemma round_two_pi: "roundBinary64 (2 * binary64PI) = Finite (2 * binary64PI)"
  unfolding binary64PI_def
  by (subst roundBinary64_scaled [where n = 50]) simp_all

lemma binary64_two_pi: "twoPiInDoubles binary64Arithmetic = Finite (2 * binary64PI)"
  by (simp add: twoPiInDoubles_def round_two round_two_pi)

lemma binade_pi: "binadeOf binary64PI = 1"
proof (rule binadeOf_eq)
  show "2 powr of_int 1 \<le> \<bar>binary64PI\<bar>"
    by (simp add: binary64PI_def)
  show "\<bar>binary64PI\<bar> < 2 powr (of_int 1 + 1)"
    using powr_realpow [of 2 2] by (simp add: binary64PI_def)
qed simp

lemma binade_two_pi: "binadeOf (2 * binary64PI) = 2"
proof (rule binadeOf_eq)
  show "2 powr of_int 2 \<le> \<bar>2 * binary64PI\<bar>"
    using powr_realpow [of 2 2] by (simp add: binary64PI_def)
  show "\<bar>2 * binary64PI\<bar> < 2 powr (of_int 2 + 1)"
    using powr_realpow [of 2 3] by (simp add: binary64PI_def)
qed simp

lemma pi_representable:
  "0 < binary64PI"
  "binary64PI = of_int 7074237752028440 * 2 powr (of_int (binadeOf binary64PI) - 52)"
  "2 powr of_int (binadeOf binary64PI) \<le> binary64PI"
proof -
  show "0 < binary64PI"
    by (simp add: binary64PI_def)
  show "binary64PI = of_int 7074237752028440 * 2 powr (of_int (binadeOf binary64PI) - 52)"
    unfolding binade_pi using powr_realpow [of 2 51]
    by (simp add: binary64PI_def powr_minus divide_simps)
  show "2 powr of_int (binadeOf binary64PI) \<le> binary64PI"
    unfolding binade_pi by (simp add: binary64PI_def)
qed

lemma two_pi_representable:
  "0 < 2 * binary64PI"
  "2 * binary64PI = of_int 7074237752028440 * 2 powr (of_int (binadeOf (2 * binary64PI)) - 52)"
  "2 powr of_int (binadeOf (2 * binary64PI)) \<le> 2 * binary64PI"
proof -
  show "0 < 2 * binary64PI"
    by (simp add: binary64PI_def)
  show "2 * binary64PI
        = of_int 7074237752028440 * 2 powr (of_int (binadeOf (2 * binary64PI)) - 52)"
    unfolding binade_two_pi using powr_realpow [of 2 50]
    by (simp add: binary64PI_def powr_minus divide_simps)
  show "2 powr of_int (binadeOf (2 * binary64PI)) \<le> 2 * binary64PI"
    unfolding binade_two_pi using powr_realpow [of 2 2] by (simp add: binary64PI_def)
qed

lemma round_le_pi:
  assumes "x \<le> binary64PI" and "roundBinary64 x = Finite r"
  shows "r \<le> binary64PI"
  by (rule roundBinary64_le [OF assms(1) pi_representable assms(2)])

lemma round_le_two_pi:
  assumes "x \<le> 2 * binary64PI" and "roundBinary64 x = Finite r"
  shows "r \<le> 2 * binary64PI"
  by (rule roundBinary64_le [OF assms(1) two_pi_representable assms(2)])

lemma clampToPI_le:
  assumes "clampToPI d = Finite r"
  shows "r \<le> binary64PI"
proof -
  have "0 \<le> binary64PI"
    by (simp add: binary64PI_def)
  with assms show ?thesis
    by (cases d) (auto simp add: clampToPI_def)
qed

lemma clampToPI_nonneg:
  assumes "clampToPI (roundBinary64 x) = Finite r" and "0 \<le> x"
  shows "0 \<le> r"
proof (cases "roundBinary64 x")
  case (Finite r0)
  from roundBinary64_nonneg [OF assms(2) Finite] have "0 \<le> r0" .
  moreover have "0 < binary64PI"
    by (simp add: binary64PI_def)
  ultimately show ?thesis
    using assms(1) Finite by (auto simp add: clampToPI_def)
qed (use assms(1) in \<open>simp_all add: clampToPI_def\<close>)

lemma binary64_acos_range:
  assumes "b64Val (b64Acos x) = Some r"
  shows "0 \<le> r \<and> r \<le> binary64PI"
proof (cases x)
  case (Finite a)
  with assms have inside: "- 1 \<le> a \<and> a \<le> 1"
    and c: "clampToPI (roundBinary64 (arccos a)) = Finite r"
    by (auto split: if_splits elim: b64Val.elims)
  from inside have "0 \<le> arccos a"
    by (simp add: arccos_lbound)
  from clampToPI_nonneg [OF c this] clampToPI_le [OF c] show ?thesis
    by simp
qed (use assms in simp_all)

lemma binary64_atan2_range:
  assumes "b64Val (b64Atan2 y x) = Some r"
  shows "r \<le> binary64PI"
proof -
  have pos: "0 < binary64PI"
    by (simp add: binary64PI_def)
  from assms have r: "b64Atan2 y x = Finite r"
    by (auto elim: b64Val.elims)
  show ?thesis
    using r pos by (cases y; cases x) (auto dest: clampToPI_le split: if_splits)
qed

lemma binary64_add_two_pi:
  assumes "b64Val (b64Add a (Finite (2 * binary64PI))) = Some r"
  shows "\<exists>ra. b64Val a = Some ra \<and> (ra \<le> 0 \<longrightarrow> r \<le> 2 * binary64PI)"
proof (cases a)
  case (Finite ra)
  with assms have "roundBinary64 (ra + 2 * binary64PI) = Finite r"
    by (auto elim: b64Val.elims)
  then have "ra \<le> 0 \<longrightarrow> r \<le> 2 * binary64PI"
    using round_le_two_pi [of "ra + 2 * binary64PI" r] by simp
  with Finite show ?thesis
    by simp
qed (use assms in simp_all)

lemma binary64_sub:
  assumes "b64Val (b64Sub a b) = Some r"
  shows "\<exists>ra rb. b64Val a = Some ra \<and> b64Val b = Some rb
          \<and> (ra - rb \<le> binary64PI \<longrightarrow> r \<le> binary64PI)"
proof (cases a; cases b)
  fix ra rb
  assume a: "a = Finite ra" and b: "b = Finite rb"
  with assms have "roundBinary64 (ra - rb) = Finite r"
    by (auto simp add: b64Sub_def elim: b64Val.elims)
  then have "ra - rb \<le> binary64PI \<longrightarrow> r \<le> binary64PI"
    using round_le_pi [of "ra - rb" r] by simp
  with a b show ?thesis
    by simp
qed (use assms in \<open>simp_all add: b64Sub_def\<close>)

lemma binary64_less:
  assumes "b64Val a = Some ra" and "b64Val b = Some rb"
  shows "b64Less a b = (ra < rb)"
  using assms by (cases a; cases b) simp_all

lemma binary64_is_doubleArithmetic:
  "doubleArithmetic binary64Arithmetic
     (2535301200456459 / 2535301200456458802993406410752) binary64PI (2 * binary64PI)"
  unfolding doubleArithmetic_def binary64_fields binary64_tolerance binary64_two_pi
proof (intro conjI allI impI)
  show "0 \<le> binary64PI" "binary64PI \<le> 2 * binary64PI"
    by (simp_all add: binary64PI_def)
  show "2 * binary64PI < 2 * pi"
    using binary64PI_less_pi by simp
next
  fix a b r
  assume "b64Val (b64Sub a b) = Some r"
  then show "\<exists>ra rb. b64Val a = Some ra \<and> b64Val b = Some rb
               \<and> (ra - rb \<le> binary64PI \<longrightarrow> r \<le> binary64PI)"
    by (rule binary64_sub)
qed (simp_all add: binary64_less binary64_add_two_pi binary64_acos_range
       binary64_atan2_range)

subsection \<open>The conversion on binary64 returns on every input\<close>

text \<open>
  No wrapping loop runs forever. An arccosine is NaN or lies in \<open>[0, PI]\<close> and leaves its
  loop at once. \<open>\<lambda>\<close> is NaN or lies in \<open>[-PI, PI]\<close>, so \<open>\<lambda>\<close> minus the node is NaN or at
  least \<open>- 2 PI\<close> and its loop adds \<^verbatim>\<open>2.0 * PI\<close> at most once; the argument of periapsis
  is NaN or at least \<open>- 3 PI\<close> before its loop, which adds \<^verbatim>\<open>2.0 * PI\<close> at most twice.
\<close>

lemma atan2_range: "- pi < atan2 y x \<and> atan2 y x \<le> pi"
proof -
  have b: "- (pi / 2) < arctan (y / x)" "arctan (y / x) < pi / 2"
    by (rule arctan_lbound, rule arctan_ubound)
  have neg1: "x < 0 \<Longrightarrow> 0 \<le> y \<Longrightarrow> arctan (y / x) \<le> 0"
    by (simp add: divide_nonneg_neg)
  have neg2: "x < 0 \<Longrightarrow> y < 0 \<Longrightarrow> 0 < arctan (y / x)"
    by (simp add: divide_neg_neg)
  show ?thesis
    using b neg1 neg2 pi_gt_zero unfolding atan2_def
    by (auto simp del: arctan_le_zero_iff zero_less_arctan_iff)
qed

lemma binade_four: "binadeOf 4 = 2"
proof (rule binadeOf_eq)
  show "2 powr of_int 2 \<le> \<bar>4 :: real\<bar>"
    using powr_realpow [of 2 2] by simp
  show "\<bar>4 :: real\<bar> < 2 powr (of_int 2 + 1)"
    using powr_realpow [of 2 3] by simp
qed simp

lemma round_within_four:
  assumes "- 4 \<le> x" and "x \<le> 4"
  shows "\<exists>r. roundBinary64 x = Finite r \<and> - 4 \<le> r \<and> r \<le> 4"
proof (rule roundBinary64_within [OF assms])
  show "(4::real) = of_int 4503599627370496 * 2 powr (of_int (binadeOf 4) - 52)"
    unfolding binade_four using powr_realpow [of 2 50]
    by (simp add: powr_minus divide_simps)
  show "2 powr of_int (binadeOf 4) \<le> (4::real)"
    unfolding binade_four using powr_realpow [of 2 2] by simp
qed simp_all

lemma binade_three_pi: "binadeOf (3 * binary64PI) = 3"
proof (rule binadeOf_eq)
  show "2 powr of_int 3 \<le> \<bar>3 * binary64PI\<bar>"
    using powr_realpow [of 2 3] by (simp add: binary64PI_def)
  show "\<bar>3 * binary64PI\<bar> < 2 powr (of_int 3 + 1)"
    using powr_realpow [of 2 4] by (simp add: binary64PI_def)
qed simp

lemma three_pi_representable:
  "0 < 3 * binary64PI"
  "3 * binary64PI = of_int 5305678314021330 * 2 powr (of_int (binadeOf (3 * binary64PI)) - 52)"
  "2 powr of_int (binadeOf (3 * binary64PI)) \<le> 3 * binary64PI"
proof -
  show "0 < 3 * binary64PI"
    by (simp add: binary64PI_def)
  show "3 * binary64PI
        = of_int 5305678314021330 * 2 powr (of_int (binadeOf (3 * binary64PI)) - 52)"
    unfolding binade_three_pi using powr_realpow [of 2 49]
    by (simp add: binary64PI_def powr_minus divide_simps)
  show "2 powr of_int (binadeOf (3 * binary64PI)) \<le> 3 * binary64PI"
    unfolding binade_three_pi using powr_realpow [of 2 3] by (simp add: binary64PI_def)
qed

lemma round_within_two_pi:
  assumes "- (2 * binary64PI) \<le> x" and "x \<le> 2 * binary64PI"
  shows "\<exists>r. roundBinary64 x = Finite r \<and> - (2 * binary64PI) \<le> r \<and> r \<le> 2 * binary64PI"
  by (rule roundBinary64_within [OF assms two_pi_representable]) (simp add: binary64PI_def)

lemma round_within_three_pi:
  assumes "- (3 * binary64PI) \<le> x" and "x \<le> 3 * binary64PI"
  shows "\<exists>r. roundBinary64 x = Finite r \<and> - (3 * binary64PI) \<le> r \<and> r \<le> 3 * binary64PI"
  by (rule roundBinary64_within [OF assms three_pi_representable]) (simp add: binary64PI_def)

lemma round_ge_pi:
  assumes "- binary64PI \<le> x" and "roundBinary64 x = Finite r"
  shows "- binary64PI \<le> r"
  using nearest_ge [OF assms(1) pi_representable] roundBinary64_value [OF assms(2)] by simp

lemma binary64_acos_shape:
  "b64Acos x = NaN \<or> (\<exists>r. b64Acos x = Finite r \<and> 0 \<le> r \<and> r \<le> binary64PI)"
proof (cases x)
  case (Finite a)
  show ?thesis
  proof (cases "- 1 \<le> a \<and> a \<le> 1")
    case True
    then have "0 \<le> arccos a" "arccos a \<le> pi"
      by (simp_all add: arccos_lbound arccos_ubound)
    then have "- 4 \<le> arccos a" "arccos a \<le> 4"
      using pi_less_4 by linarith+
    from round_within_four [OF this] obtain r0 where r0: "roundBinary64 (arccos a) = Finite r0"
      by blast
    have "0 \<le> r0"
      using \<open>0 \<le> arccos a\<close> r0 by (rule roundBinary64_nonneg)
    then show ?thesis
      using Finite True r0 pi_representable(1) by (simp add: clampToPI_def)
  next
    case False
    with Finite show ?thesis
      by auto
  qed
qed simp_all

lemma clamp_shape:
  assumes "- 4 \<le> x" and "x \<le> 4"
  shows "\<exists>r. clampToPI (roundBinary64 x) = Finite r \<and> - binary64PI \<le> r \<and> r \<le> binary64PI"
proof -
  from round_within_four [OF assms] obtain r0 where "roundBinary64 x = Finite r0"
    by blast
  then show ?thesis
    using pi_representable(1) by (simp add: clampToPI_def)
qed

lemma binary64_atan2_shape:
  "b64Atan2 y x = NaN
   \<or> (\<exists>r. b64Atan2 y x = Finite r \<and> - binary64PI \<le> r \<and> r \<le> binary64PI)"
proof -
  have a: "- 4 \<le> atan2 b a \<and> atan2 b a \<le> 4" for a b
    using atan2_range [of b a] pi_less_4 by linarith
  have c: "\<exists>r. clampToPI (roundBinary64 z) = Finite r \<and> - binary64PI \<le> r \<and> r \<le> binary64PI"
    if "z = pi / 2 \<or> z = - (pi / 2) \<or> z = pi / 4 \<or> z = - (pi / 4)
        \<or> z = 3 * pi / 4 \<or> z = - (3 * pi / 4)" for z
  proof (rule clamp_shape)
    have "- 4 \<le> z \<and> z \<le> 4"
      using that pi_gt_zero pi_less_4 by (elim disjE) linarith+
    then show "- 4 \<le> z" "z \<le> 4"
      by simp_all
  qed
  show ?thesis
    using pi_representable(1)
    by (cases y; cases x) (simp_all add: clamp_shape a c)
qed

lemma binary64_loop_stay:
  assumes "- (2535301200456459 / 2535301200456458802993406410752) \<le> r"
  shows "ensurePositiveInDoubles binary64Arithmetic (Finite r) = Some (Finite r)"
  using assms by (subst ensurePositiveInDoubles.simps) (simp add: binary64_tolerance)

lemma binary64_loop_step:
  assumes "r < - (2535301200456459 / 2535301200456458802993406410752)"
  shows "ensurePositiveInDoubles binary64Arithmetic (Finite r)
         = ensurePositiveInDoubles binary64Arithmetic (roundBinary64 (r + 2 * binary64PI))"
  using assms
  by (subst ensurePositiveInDoubles.simps) (simp add: binary64_tolerance binary64_two_pi)

lemma binary64_loop_once:
  assumes "- (2 * binary64PI) \<le> r"
  shows "\<exists>r'. ensurePositiveInDoubles binary64Arithmetic (Finite r) = Some (Finite r')"
proof (cases "r < - (2535301200456459 / 2535301200456458802993406410752)")
  case False
  then show ?thesis
    by (simp add: binary64_loop_stay)
next
  case True
  have "- (2 * binary64PI) \<le> r + 2 * binary64PI" "r + 2 * binary64PI \<le> 2 * binary64PI"
    using assms True by simp_all
  from round_within_two_pi [OF this] obtain r1
    where r1: "roundBinary64 (r + 2 * binary64PI) = Finite r1"
    by blast
  have "0 \<le> r + 2 * binary64PI"
    using assms by simp
  then have "0 \<le> r1"
    using r1 by (rule roundBinary64_nonneg)
  then show ?thesis
    unfolding binary64_loop_step [OF True] r1 by (simp add: binary64_loop_stay)
qed

lemma binary64_loop_twice:
  assumes "- (3 * binary64PI) \<le> r"
  shows "\<exists>r'. ensurePositiveInDoubles binary64Arithmetic (Finite r) = Some (Finite r')"
proof (cases "r < - (2535301200456459 / 2535301200456458802993406410752)")
  case False
  then show ?thesis
    by (simp add: binary64_loop_stay)
next
  case True
  have "- (2 * binary64PI) \<le> r + 2 * binary64PI" "r + 2 * binary64PI \<le> 2 * binary64PI"
    using assms True pi_representable(1) by simp_all
  from round_within_two_pi [OF this] obtain r1
    where r1: "roundBinary64 (r + 2 * binary64PI) = Finite r1"
    by blast
  have "- binary64PI \<le> r + 2 * binary64PI"
    using assms by simp
  then have "- binary64PI \<le> r1"
    using r1 by (rule round_ge_pi)
  then have "- (2 * binary64PI) \<le> r1"
    using pi_representable(1) by simp
  then show ?thesis
    unfolding binary64_loop_step [OF True] r1 by (rule binary64_loop_once)
qed

lemma binary64_loop_terminates:
  assumes "x = NaN \<or> (\<exists>r. x = Finite r \<and> - (3 * binary64PI) \<le> r)"
  shows "\<exists>y. ensurePositiveInDoubles binary64Arithmetic x = Some y"
  using assms binary64_loop_nan binary64_loop_twice by auto

lemma binary64_lambda_minus_node:
  assumes l: "l = NaN \<or> (\<exists>r. l = Finite r \<and> - binary64PI \<le> r \<and> r \<le> binary64PI)"
    and n: "n = NaN \<or> (\<exists>r. n = Finite r \<and> 0 \<le> r \<and> r \<le> binary64PI)"
  shows "b64Sub l n = NaN
         \<or> (\<exists>r. b64Sub l n = Finite r \<and> - (2 * binary64PI) \<le> r \<and> r \<le> 2 * binary64PI)"
proof (cases "l = NaN \<or> n = NaN")
  case True
  then show ?thesis
    by (cases l) (auto simp add: b64Sub_def)
next
  case False
  with l n obtain rl rn where l': "l = Finite rl" "- binary64PI \<le> rl" "rl \<le> binary64PI"
    and n': "n = Finite rn" "0 \<le> rn" "rn \<le> binary64PI"
    by auto
  have "- (2 * binary64PI) \<le> rl - rn" "rl - rn \<le> 2 * binary64PI"
    using l' n' by simp_all
  from round_within_two_pi [OF this] show ?thesis
    unfolding l' n' by (simp add: b64Sub_def)
qed

lemma binary64_minus_anomaly:
  assumes d: "d = NaN
      \<or> (\<exists>r. d = Finite r \<and> - (2 * binary64PI) \<le> r \<and> r \<le> 2 * binary64PI)"
    and a: "a = NaN \<or> (\<exists>r. a = Finite r \<and> 0 \<le> r \<and> r \<le> binary64PI)"
  shows "b64Sub d a = NaN \<or> (\<exists>r. b64Sub d a = Finite r \<and> - (3 * binary64PI) \<le> r)"
proof (cases "d = NaN \<or> a = NaN")
  case True
  then show ?thesis
    by (cases d) (auto simp add: b64Sub_def)
next
  case False
  with d a obtain rd ra
    where d': "d = Finite rd" "- (2 * binary64PI) \<le> rd" "rd \<le> 2 * binary64PI"
    and a': "a = Finite ra" "0 \<le> ra" "ra \<le> binary64PI"
    by auto
  have "- (3 * binary64PI) \<le> rd - ra" "rd - ra \<le> 3 * binary64PI"
    using d' a' by simp_all
  from round_within_three_pi [OF this] show ?thesis
    unfolding d' a' by (auto simp add: b64Sub_def)
qed

lemma binary64_node_returns:
  "\<exists>n. nodeInDoubles binary64Arithmetic u = Some n
       \<and> (n = NaN \<or> (\<exists>r. n = Finite r \<and> 0 \<le> r \<and> r \<le> binary64PI))"
proof (cases "pureProgradeInDoubles binary64Arithmetic u
              \<or> pureRetrogradeInDoubles binary64Arithmetic u")
  case True
  then show ?thesis
    using pi_representable(1) by (simp add: nodeInDoubles_def)
next
  case False
  from binary64_acos_shape [of "nodeCosineInDoubles binary64Arithmetic u"]
  show ?thesis
  proof (elim disjE exE conjE)
    assume "b64Acos (nodeCosineInDoubles binary64Arithmetic u) = NaN"
    then show ?thesis
      using False by (simp add: nodeInDoubles_def binary64_loop_nan)
  next
    fix r
    assume "b64Acos (nodeCosineInDoubles binary64Arithmetic u) = Finite r"
      and "0 \<le> r" and "r \<le> binary64PI"
    then show ?thesis
      using False by (simp add: nodeInDoubles_def binary64_loop_stay)
  qed
qed

lemma binary64_anomaly_returns:
  assumes n: "n = NaN \<or> (\<exists>r. n = Finite r \<and> 0 \<le> r \<and> r \<le> binary64PI)"
  shows "\<exists>a. trueAnomalyInDoubles binary64Arithmetic u n = Some a
       \<and> (\<not> circularInDoubles binary64Arithmetic u
            \<longrightarrow> a = NaN \<or> (\<exists>r. a = Finite r \<and> 0 \<le> r \<and> r \<le> binary64PI))"
proof (cases "circularInDoubles binary64Arithmetic u")
  case True
  have l: "lambdaInDoubles binary64Arithmetic u = NaN
      \<or> (\<exists>r. lambdaInDoubles binary64Arithmetic u = Finite r
              \<and> - binary64PI \<le> r \<and> r \<le> binary64PI)"
    unfolding lambdaInDoubles_def binary64_fields by (rule binary64_atan2_shape)
  from binary64_lambda_minus_node [OF l n]
  have "b64Sub (lambdaInDoubles binary64Arithmetic u) n = NaN
      \<or> (\<exists>r. b64Sub (lambdaInDoubles binary64Arithmetic u) n = Finite r
              \<and> - (3 * binary64PI) \<le> r)"
    using pi_representable(1) by auto
  from binary64_loop_terminates [OF this] show ?thesis
    using True by (simp add: trueAnomalyInDoubles_def)
next
  case False
  from binary64_acos_shape [of "anomalyCosineInDoubles binary64Arithmetic u"]
  show ?thesis
  proof (elim disjE exE conjE)
    assume "b64Acos (anomalyCosineInDoubles binary64Arithmetic u) = NaN"
    then show ?thesis
      using False by (simp add: trueAnomalyInDoubles_def binary64_loop_nan)
  next
    fix r
    assume "b64Acos (anomalyCosineInDoubles binary64Arithmetic u) = Finite r"
      and "0 \<le> r" and "r \<le> binary64PI"
    then show ?thesis
      using False by (simp add: trueAnomalyInDoubles_def binary64_loop_stay)
  qed
qed

lemma binary64_periapsis_returns:
  assumes n: "n = NaN \<or> (\<exists>r. n = Finite r \<and> 0 \<le> r \<and> r \<le> binary64PI)"
    and a: "\<not> circularInDoubles binary64Arithmetic u
            \<longrightarrow> a = NaN \<or> (\<exists>r. a = Finite r \<and> 0 \<le> r \<and> r \<le> binary64PI)"
  shows "\<exists>w. periapsisInDoubles binary64Arithmetic u n a = Some w"
proof (cases "circularInDoubles binary64Arithmetic u")
  case True
  then show ?thesis
    by (simp add: periapsisInDoubles_def)
next
  case False
  have l: "lambdaInDoubles binary64Arithmetic u = NaN
      \<or> (\<exists>r. lambdaInDoubles binary64Arithmetic u = Finite r
              \<and> - binary64PI \<le> r \<and> r \<le> binary64PI)"
    unfolding lambdaInDoubles_def binary64_fields by (rule binary64_atan2_shape)
  from a False have a': "a = NaN \<or> (\<exists>r. a = Finite r \<and> 0 \<le> r \<and> r \<le> binary64PI)"
    by simp
  from binary64_loop_terminates
    [OF binary64_minus_anomaly [OF binary64_lambda_minus_node [OF l n] a']]
  show ?thesis
    using False by (simp add: periapsisInDoubles_def)
qed

lemma binary64_returns:
  "\<exists>cerr kep. convertUnifiedStateModelToKeplerianElementsInDoubles binary64Arithmetic u mu
     = Some (Inr (cerr, kep))"
proof (cases "pureRetrogradeInDoubles binary64Arithmetic u")
  case True
  then show ?thesis
    by (simp add: inDoubles_singular)
next
  case False
  from binary64_node_returns [of u] obtain n
    where n: "nodeInDoubles binary64Arithmetic u = Some n"
      and ns: "n = NaN \<or> (\<exists>r. n = Finite r \<and> 0 \<le> r \<and> r \<le> binary64PI)"
    by blast
  from binary64_anomaly_returns [OF ns, of u] obtain a
    where a: "trueAnomalyInDoubles binary64Arithmetic u n = Some a"
      and as: "\<not> circularInDoubles binary64Arithmetic u
            \<longrightarrow> a = NaN \<or> (\<exists>r. a = Finite r \<and> 0 \<le> r \<and> r \<le> binary64PI)"
    by blast
  from binary64_periapsis_returns [OF ns as] obtain w
    where w: "periapsisInDoubles binary64Arithmetic u n a = Some w"
    by blast
  show ?thesis
    by (simp add: inDoubles_regular [OF False] n a w)
qed

subsection \<open>The conversion at a unit quaternion whose node cosine rounds above 1\<close>

text \<open>
  The input is \<open>C = 1\<close>, \<open>Rf1 = Rf2 = 0\<close> and the quaternion \<open>(0.28, 0, 0, 0.96)\<close>, each
  number rounded to binary64 as the compiler rounds the literal. Every step is the exact
  result rounded to nearest.
\<close>

lemma round_028: "roundBinary64 (28 / 100) = Finite (1261007895663739 / 4503599627370496)"
  by (subst roundBinary64_scaled [where n = 54]) (simp_all add: roundToEven_def)

lemma round_096: "roundBinary64 (96 / 100) = Finite (1080863910568919 / 1125899906842624)"
  by (subst roundBinary64_scaled [where n = 53]) (simp_all add: roundToEven_def)

lemma step_e1_eta:
  "roundBinary64 (1261007895663739 / 4503599627370496 * (1080863910568919 / 1125899906842624))
   = Finite (2421135159674379 / 9007199254740992)"
  by (subst roundBinary64_scaled [where n = 54]) (simp_all add: roundToEven_def)

lemma step_e1_e1:
  "roundBinary64 (1261007895663739 / 4503599627370496 * (1261007895663739 / 4503599627370496))
   = Finite (5649315372573551 / 72057594037927936)"
  by (subst roundBinary64_scaled [where n = 56]) (simp_all add: roundToEven_def)

lemma step_eta_eta:
  "roundBinary64 (1080863910568919 / 1125899906842624 * (1080863910568919 / 1125899906842624))
   = Finite (4150517416584649 / 4503599627370496)"
  by (subst roundBinary64_scaled [where n = 53]) (simp_all add: roundToEven_def)

lemma step_keep_1:
  "roundBinary64 (5649315372573551 / 72057594037927936)
   = Finite (5649315372573551 / 72057594037927936)"
  by (subst roundBinary64_scaled [where n = 56]) (simp_all add: roundToEven_def)

lemma step_keep_2:
  "roundBinary64 (4150517416584649 / 4503599627370496)
   = Finite (4150517416584649 / 4503599627370496)"
  by (subst roundBinary64_scaled [where n = 53]) (simp_all add: roundToEven_def)

lemma step_keep_3:
  "roundBinary64 (2421135159674379 / 9007199254740992)
   = Finite (2421135159674379 / 9007199254740992)"
  by (subst roundBinary64_scaled [where n = 54]) (simp_all add: roundToEven_def)

lemma step_product:
  "roundBinary64 (5649315372573551 / 72057594037927936 * (4150517416584649 / 4503599627370496))
   = Finite (650801130920473 / 9007199254740992)"
  by (subst roundBinary64_scaled [where n = 56]) (simp_all add: roundToEven_def)

lemma step_sqrt:
  "roundBinary64 (sqrt (650801130920473 / 9007199254740992))
   = Finite (4842270319348757 / 18014398509481984)"
proof -
  let ?s = "sqrt (650801130920473 / 9007199254740992)"
  have lo: "(4842270319348757 - 1 / 2) / 2 ^ 54 < ?s"
    by (rule real_less_rsqrt) (simp add: power2_eq_square)
  have hi: "?s < (4842270319348757 + 1 / 2) / 2 ^ 54"
    by (rule real_less_lsqrt) (simp_all add: power2_eq_square)
  have near: "roundToEven (?s * 2 ^ 54) = 4842270319348757"
    using lo hi by (intro roundToEven_nearest) (simp_all add: field_simps)
  have pos: "0 \<le> ?s"
    by simp
  have "roundBinary64 ?s = Finite (of_int (roundToEven (?s * 2 ^ 54)) / 2 ^ 54)"
    using lo hi pos by (intro roundBinary64_scaled) (simp_all add: field_simps)
  then show ?thesis
    unfolding near by simp
qed

lemma step_quotient:
  "roundBinary64 (2421135159674379 / 9007199254740992 / (4842270319348757 / 18014398509481984))
   = Finite (4503599627370497 / 4503599627370496)"
  by (subst roundBinary64_scaled [where n = 52]) (simp_all add: roundToEven_def)

lemma rounded_quaternion:
  "map (dLit binary64Arithmetic) [1, 0, 0, 28 / 100, 0, 0, 96 / 100]
   = [Finite 1, Finite 0, Finite 0, Finite (1261007895663739 / 4503599627370496), Finite 0,
      Finite 0, Finite (1080863910568919 / 1125899906842624)]"
  unfolding list.map binary64_fields round_028 round_096 round_one round_zero by (rule refl)

lemma mul_e1_eta:
  "b64Mul (Finite (1261007895663739 / 4503599627370496))
     (Finite (1080863910568919 / 1125899906842624))
   = Finite (2421135159674379 / 9007199254740992)"
  unfolding b64Mul.simps by (rule step_e1_eta)

lemma mul_e1_e1:
  "b64Mul (Finite (1261007895663739 / 4503599627370496))
     (Finite (1261007895663739 / 4503599627370496))
   = Finite (5649315372573551 / 72057594037927936)"
  unfolding b64Mul.simps by (rule step_e1_e1)

lemma mul_eta_eta:
  "b64Mul (Finite (1080863910568919 / 1125899906842624))
     (Finite (1080863910568919 / 1125899906842624))
   = Finite (4150517416584649 / 4503599627370496)"
  unfolding b64Mul.simps by (rule step_eta_eta)

lemma mul_zero_zero: "b64Mul (Finite 0) (Finite 0) = Finite 0"
  by simp

lemma add_keep_1:
  "b64Add (Finite (5649315372573551 / 72057594037927936)) (Finite 0)
   = Finite (5649315372573551 / 72057594037927936)"
  using step_keep_1 by simp

lemma add_keep_2:
  "b64Add (Finite (4150517416584649 / 4503599627370496)) (Finite 0)
   = Finite (4150517416584649 / 4503599627370496)"
  using step_keep_2 by simp

lemma sub_keep_3:
  "b64Sub (Finite (2421135159674379 / 9007199254740992)) (Finite 0)
   = Finite (2421135159674379 / 9007199254740992)"
  using step_keep_3 by (simp add: b64Sub_def)

lemma mul_product:
  "b64Mul (Finite (5649315372573551 / 72057594037927936))
     (Finite (4150517416584649 / 4503599627370496))
   = Finite (650801130920473 / 9007199254740992)"
  unfolding b64Mul.simps by (rule step_product)

lemma sqrt_product:
  "b64Sqrt (Finite (650801130920473 / 9007199254740992))
   = Finite (4842270319348757 / 18014398509481984)"
  using step_sqrt by simp

lemma div_quotient:
  "b64Div (Finite (2421135159674379 / 9007199254740992))
     (Finite (4842270319348757 / 18014398509481984))
   = Finite (4503599627370497 / 4503599627370496)"
  using step_quotient by simp

lemma nan_example_node_cosine:
  "nodeCosineInDoubles binary64Arithmetic
     [Finite 1, Finite 0, Finite 0, Finite (1261007895663739 / 4503599627370496), Finite 0,
      Finite 0, Finite (1080863910568919 / 1125899906842624)]
   = Finite (4503599627370497 / 4503599627370496)"
  by (simp add: nodeCosineInDoubles_def unifiedStateModelIndices
      mul_e1_eta mul_e1_e1 mul_eta_eta mul_zero_zero add_keep_1 add_keep_2 sub_keep_3
      mul_product sqrt_product div_quotient
      del: b64Mul.simps b64Add.simps b64Div.simps b64Sqrt.simps)

subsection \<open>The conversion at a quaternion with a tiny negative \<open>\<epsilon>3\<close>\<close>

text \<open>
  The input is \<open>C = 1\<close>, \<open>Rf1 = Rf2 = 0\<close> and the quaternion \<open>(0, 0, - 2\<^sup>-\<^sup>5\<^sup>3, 1)\<close>, whose
  norm is 1 in binary64.
\<close>

lemma round_minus_eps3:
  "roundBinary64 (- (1 / 9007199254740992)) = Finite (- (1 / 9007199254740992))"
  by (subst roundBinary64_scaled [where n = 105]) (simp_all add: roundToEven_def)

lemma tiny_quaternion:
  "map (dLit binary64Arithmetic) [1, 0, 0, 0, 0, - (1 / 9007199254740992), 1]
   = [Finite 1, Finite 0, Finite 0, Finite 0, Finite 0, Finite (- (1 / 9007199254740992)),
      Finite 1]"
  unfolding list.map binary64_fields round_minus_eps3 round_one round_zero by (rule refl)

lemma mul_eps3_eps3:
  "b64Mul (Finite (- (1 / 9007199254740992))) (Finite (- (1 / 9007199254740992)))
   = Finite (1 / 81129638414606681695789005144064)"
proof -
  have "roundBinary64 (1 / 81129638414606681695789005144064)
        = Finite (1 / 81129638414606681695789005144064)"
    by (subst roundBinary64_scaled [where n = 158]) (simp_all add: roundToEven_def)
  then show ?thesis
    by simp
qed

lemma sub_one_tiny:
  "b64Sub (Finite 1) (Finite (1 / 81129638414606681695789005144064)) = Finite 1"
proof -
  have "roundBinary64 (1 - 1 / 81129638414606681695789005144064) = Finite 1"
    by (subst roundBinary64_scaled [where n = 53]) (simp_all add: roundToEven_def)
  then show ?thesis
    by (simp add: b64Sub_def)
qed

lemma add_tiny_one:
  "b64Add (Finite (1 / 81129638414606681695789005144064)) (Finite 1) = Finite 1"
proof -
  have "roundBinary64 (1 / 81129638414606681695789005144064 + 1) = Finite 1"
    by (subst roundBinary64_scaled [where n = 52]) (simp_all add: roundToEven_def)
  then show ?thesis
    by simp
qed

lemma mul_two_eps3:
  "b64Mul (Finite 2) (Finite (- (1 / 9007199254740992))) = Finite (- (1 / 4503599627370496))"
proof -
  have "roundBinary64 (- (1 / 4503599627370496)) = Finite (- (1 / 4503599627370496))"
    by (subst roundBinary64_scaled [where n = 104]) (simp_all add: roundToEven_def)
  then show ?thesis
    by simp
qed

lemma round_minus_s:
  "roundBinary64 (- (1 / 4503599627370496)) = Finite (- (1 / 4503599627370496))"
  by (subst roundBinary64_scaled [where n = 104]) (simp_all add: roundToEven_def)

lemma arctan_tiny:
  "roundBinary64 (arctan (- (1 / 4503599627370496))) = Finite (- (1 / 4503599627370496))"
proof -
  let ?x = "1 / 4503599627370496 :: real"
  let ?a = "arctan ?x"
  have lo: "?x - ?x ^ 3 / 3 \<le> ?a"
    using arctan_partial_sums(1) [of ?x 1] by (simp add: numeral_eq_Suc)
  have hi: "?a \<le> ?x - ?x ^ 3 / 3 + ?x ^ 5 / 5"
    using arctan_partial_sums(2) [of ?x 1] by (simp add: numeral_eq_Suc)
  have lo': "9007199254740992 - 1 / 2 < ?a * 2 ^ 105"
    using lo by (simp add: field_simps)
  have hi': "?a * 2 ^ 105 < 9007199254740992"
    using hi by (simp add: field_simps)
  have near: "roundToEven (- ?a * 2 ^ 105) = - 9007199254740992"
    using lo' hi' by (intro roundToEven_nearest) simp_all
  have pos: "0 \<le> ?a"
    by simp
  have "roundBinary64 (- ?a) = Finite (of_int (roundToEven (- ?a * 2 ^ 105)) / 2 ^ 105)"
    using lo' hi' pos by (intro roundBinary64_scaled) simp_all
  then show ?thesis
    unfolding near by (simp add: arctan_minus)
qed

lemma atan2_tiny:
  "b64Atan2 (Finite (- (1 / 4503599627370496))) (Finite 1) = Finite (- (1 / 4503599627370496))"
  by (simp add: atan2_def arctan_tiny clampToPI_def binary64PI_def)

lemma tiny_lambda_in_doubles:
  "convertUnifiedStateModelToKeplerianElementsInDoubles binary64Arithmetic
     (map (dLit binary64Arithmetic) [1, 0, 0, 0, 0, - (1 / 9007199254740992), 1])
     (dLit binary64Arithmetic 1)
   = Some (Inr ([], [Finite 1, Finite 0, Finite 0, Finite 0, Finite 0,
                     Finite (- (1 / 4503599627370496))]))"
proof -
  let ?B = binary64Arithmetic
  let ?u = "[Finite 1, Finite 0, Finite 0, Finite 0, Finite 0,
             Finite (- (1 / 9007199254740992)), Finite 1]"
  have mul_one_one: "b64Mul (Finite 1) (Finite 1) = Finite 1"
    by simp
  have div_one_one: "b64Div (Finite 1) (Finite 1) = Finite 1"
    by simp
  have mul_s_one: "b64Mul (Finite (- (1 / 4503599627370496))) (Finite 1)
                   = Finite (- (1 / 4503599627370496))"
    by (simp add: round_minus_s)
  have div_s_one: "b64Div (Finite (- (1 / 4503599627370496))) (Finite 1)
                   = Finite (- (1 / 4503599627370496))"
    by (simp add: round_minus_s)
  note steps = mul_one_one div_one_one mul_s_one div_s_one mul_eps3_eps3 sub_one_tiny add_tiny_one mul_two_eps3 round_minus_s atan2_tiny
    round_two
  have reg: "\<not> pureRetrogradeInDoubles ?B ?u" and pro: "pureProgradeInDoubles ?B ?u"
    by (simp_all add: pureRetrogradeInDoubles_def pureProgradeInDoubles_def
        binary64_tolerance unifiedStateModelIndices)
  have c: "cosineLambdaInDoubles ?B ?u = Finite 1"
    by (simp add: cosineLambdaInDoubles_def unifiedStateModelIndices steps
        del: b64Mul.simps b64Add.simps b64Div.simps)
  have s: "sineLambdaInDoubles ?B ?u = Finite (- (1 / 4503599627370496))"
    by (simp add: sineLambdaInDoubles_def unifiedStateModelIndices steps
        del: b64Mul.simps b64Add.simps b64Div.simps)
  have l: "lambdaInDoubles ?B ?u = Finite (- (1 / 4503599627370496))"
    unfolding lambdaInDoubles_def c s binary64_fields by (rule atan2_tiny)
  have ve1: "ve1InDoubles ?B ?u = Finite 0"
    unfolding ve1InDoubles_def c s by (simp add: unifiedStateModelIndices)
  have ve2: "ve2InDoubles ?B ?u = Finite 1"
    unfolding ve2InDoubles_def c s by (simp add: unifiedStateModelIndices b64Sub_def)
  have R: "RHodographInDoubles ?B ?u = Finite 0"
    by (simp add: RHodographInDoubles_def unifiedStateModelIndices)
  have circ: "circularInDoubles ?B ?u"
    by (simp add: circularInDoubles_def R binary64_tolerance)
  have e: "eccentricityInDoubles ?B ?u = Finite 0"
    unfolding eccentricityInDoubles_def R by (simp add: unifiedStateModelIndices)
  have a: "sizeInDoubles ?B ?u (Finite 1) = Finite 1"
    unfolding sizeInDoubles_def e ve1 ve2
    by (simp add: unifiedStateModelIndices b64Sub_def binary64_tolerance round_two)
  have i: "inclinationInDoubles ?B ?u = Finite 0"
    by (simp add: inclinationInDoubles_def unifiedStateModelIndices b64Sub_def round_two
        clampToPI_def binary64PI_def)
  have node: "nodeInDoubles ?B ?u = Some (Finite 0)"
    using pro by (simp add: nodeInDoubles_def)
  have loop: "ensurePositiveInDoubles ?B (Finite (- (1 / 4503599627370496)))
              = Some (Finite (- (1 / 4503599627370496)))"
    by (subst ensurePositiveInDoubles.simps) (simp add: binary64_tolerance)
  have anomaly: "trueAnomalyInDoubles ?B ?u (Finite 0) = Some (Finite (- (1 / 4503599627370496)))"
    using circ by (simp add: trueAnomalyInDoubles_def l b64Sub_def round_minus_s loop)
  have periapsis: "periapsisInDoubles ?B ?u (Finite 0) (Finite (- (1 / 4503599627370496)))
                   = Some (Finite 0)"
    using circ by (simp add: periapsisInDoubles_def)
  have u: "map (dLit ?B) [1, 0, 0, 0, 0, - (1 / 9007199254740992), 1] = ?u"
    by (rule tiny_quaternion)
  have mu: "dLit ?B 1 = Finite 1"
    by simp
  show ?thesis
    unfolding u mu
    by (simp add: inDoubles_regular [OF reg] node anomaly periapsis a e i)
qed

section \<open>Keplerian elements to USM elements: the claims\<close>

text \<open>
  Claim C5. A Keplerian input whose inclination lies outside \<open>[0, \<pi>]\<close> makes the
  conversion to USM elements throw a runtime error; its message names the expected range
  and the inclination that was given, and no USM elements are returned.
\<close>
theorem C5_inclination_outside_range_is_rejected:
  assumes "length k = 6"
    and "k ! inclinationIndex < 0 \<or> PI < k ! inclinationIndex"
  shows "convertKeplerianToUnifiedStateModelElements k mu =
     Inl (RuntimeError
            [Str ''Inclination is expected in range [0,'', Num PI, Str ('']'' @ [CHR 0x0A]),
             Str ''Specified inclination: '', Num (k ! inclinationIndex),
             Str '' rad.'', Endl])"
  using assms(2) by (rule keplerianToUnifiedStateModel_rejected)

theorem C5_inclination_outside_range_is_rejected_witness:
  "length [1, 0, - 1, 0, 0, 0 :: real] = 6
   \<and> ([1, 0, - 1, 0, 0, 0 :: real] ! inclinationIndex < 0
        \<or> PI < [1, 0, - 1, 0, 0, 0 :: real] ! inclinationIndex)
   \<and> convertKeplerianToUnifiedStateModelElements [1, 0, - 1, 0, 0, 0] 1 =
       Inl (RuntimeError
              [Str ''Inclination is expected in range [0,'', Num PI, Str ('']'' @ [CHR 0x0A]),
               Str ''Specified inclination: '', Num (- 1), Str '' rad.'', Endl])"
proof -
  have len: "length [1, 0, - 1, 0, 0, 0 :: real] = 6"
    by simp
  have out: "[1, 0, - 1, 0, 0, 0 :: real] ! inclinationIndex < 0
             \<or> PI < [1, 0, - 1, 0, 0, 0 :: real] ! inclinationIndex"
    by (simp add: inclinationIndex_def)
  have val: "[1, 0, - 1, 0, 0, 0 :: real] ! inclinationIndex = - 1"
    by (simp add: inclinationIndex_def)
  show ?thesis
    using len out C5_inclination_outside_range_is_rejected [OF len out, of 1]
    unfolding val by blast
qed

text \<open>
  Claim C7. Whenever the conversion to USM elements returns, the four quaternion
  coefficients of the result have the sum of squares 1.
\<close>
theorem C7_quaternion_has_unit_norm:
  assumes "length k = 6"
    and "convertKeplerianToUnifiedStateModelElements k mu = Inr usm"
  shows "(usm ! epsilon1QuaternionIndex)\<^sup>2 + (usm ! epsilon2QuaternionIndex)\<^sup>2
         + (usm ! epsilon3QuaternionIndex)\<^sup>2 + (usm ! etaQuaternionIndex)\<^sup>2 = 1"
proof -
  define i where "i = k ! inclinationIndex / 2"
  define d where "d = (k ! longitudeOfAscendingNodeIndex - argumentOfLongitudeOf k) / 2"
  define s where "s = (k ! longitudeOfAscendingNodeIndex + argumentOfLongitudeOf k) / 2"
  have range: "0 \<le> k ! inclinationIndex" "k ! inclinationIndex \<le> PI"
    using keplerianToUnifiedStateModel_returns [OF assms(2)] by simp_all
  have q: "usm ! epsilon1QuaternionIndex = sin i * cos d"
    "usm ! epsilon2QuaternionIndex = sin i * sin d"
    "usm ! epsilon3QuaternionIndex = cos i * sin s"
    "usm ! etaQuaternionIndex = cos i * cos s"
    using assms(2) unfolding keplerianToUnifiedStateModel_accepted [OF range] i_def d_def s_def
    by (auto simp add: unifiedStateModelIndices)
  have "(sin i * cos d)\<^sup>2 + (sin i * sin d)\<^sup>2 + (cos i * sin s)\<^sup>2 + (cos i * cos s)\<^sup>2 = 1"
    by (simp add: cos_squared_eq algebra_simps)
  then show ?thesis
    unfolding q .
qed

theorem C7_quaternion_has_unit_norm_witness:
  "length [1, 0, 0, 0, 0, 0 :: real] = 6
   \<and> convertKeplerianToUnifiedStateModelElements [1, 0, 0, 0, 0, 0] 1 = Inr [1, 0, 0, 0, 0, 0, 1]
   \<and> ([1, 0, 0, 0, 0, 0, 1 :: real] ! epsilon1QuaternionIndex)\<^sup>2
     + ([1, 0, 0, 0, 0, 0, 1 :: real] ! epsilon2QuaternionIndex)\<^sup>2
     + ([1, 0, 0, 0, 0, 0, 1 :: real] ! epsilon3QuaternionIndex)\<^sup>2
     + ([1, 0, 0, 0, 0, 0, 1 :: real] ! etaQuaternionIndex)\<^sup>2 = 1"
proof -
  have len: "length [1, 0, 0, 0, 0, 0 :: real] = 6"
    by simp
  have ret: "convertKeplerianToUnifiedStateModelElements [1, 0, 0, 0, 0, 0] 1
             = Inr [1, 0, 0, 0, 0, 0, 1]"
    by (simp add: convertKeplerianToUnifiedStateModelElements_def Let_def Zero_seven
        keplerianIndices unifiedStateModelIndices PI_def singularityTolerance_def)
  show ?thesis
    using len ret C7_quaternion_has_unit_norm [OF len ret] by blast
qed

text \<open>
  Claim C8. Whenever the conversion to USM elements returns, the hodograph coefficients
  of the result are \<open>C = sqrt (\<mu> / p)\<close>, where \<open>p\<close> is the semi-latus rectum given in the
  input when \<open>\<bar>e - 1\<bar>\<close> is below the singularity tolerance and \<open>a (1 - e\<^sup>2)\<close> otherwise,
  \<open>Rf1 = - e C sin (\<Omega> + \<omega>)\<close> and \<open>Rf2 = e C cos (\<Omega> + \<omega>)\<close>.
\<close>
theorem C8_hodograph_elements:
  assumes "length k = 6"
    and "convertKeplerianToUnifiedStateModelElements k mu = Inr usm"
  shows "usm ! CHodographIndex =
           sqrt (mu / (if \<bar>k ! eccentricityIndex - 1\<bar> < singularityTolerance
                       then k ! semiLatusRectumIndex
                       else k ! semiMajorAxisIndex * (1 - (k ! eccentricityIndex)\<^sup>2)))
         \<and> usm ! Rf1HodographIndex =
             - (k ! eccentricityIndex) * usm ! CHodographIndex
             * sin (k ! longitudeOfAscendingNodeIndex + k ! argumentOfPeriapsisIndex)
         \<and> usm ! Rf2HodographIndex =
             k ! eccentricityIndex * usm ! CHodographIndex
             * cos (k ! longitudeOfAscendingNodeIndex + k ! argumentOfPeriapsisIndex)"
proof -
  have range: "0 \<le> k ! inclinationIndex" "k ! inclinationIndex \<le> PI"
    using keplerianToUnifiedStateModel_returns [OF assms(2)] by simp_all
  have p: "semiLatusRectumOf k =
      (if \<bar>k ! eccentricityIndex - 1\<bar> < singularityTolerance
       then k ! semiLatusRectumIndex
       else k ! semiMajorAxisIndex * (1 - (k ! eccentricityIndex)\<^sup>2))"
    by (simp add: semiLatusRectumOf_def power2_eq_square)
  show ?thesis
    using assms(2) unfolding keplerianToUnifiedStateModel_accepted [OF range] p [symmetric]
    by (auto simp add: unifiedStateModelIndices)
qed

theorem C8_hodograph_elements_witness:
  "length [2, 0, 0, 0, 0, 0 :: real] = 6
   \<and> convertKeplerianToUnifiedStateModelElements [2, 0, 0, 0, 0, 0] 8 = Inr [2, 0, 0, 0, 0, 0, 1]
   \<and> [2, 0, 0, 0, 0, 0, 1 :: real] ! CHodographIndex =
       sqrt (8 / (if \<bar>[2, 0, 0, 0, 0, 0 :: real] ! eccentricityIndex - 1\<bar> < singularityTolerance
                  then [2, 0, 0, 0, 0, 0 :: real] ! semiLatusRectumIndex
                  else [2, 0, 0, 0, 0, 0 :: real] ! semiMajorAxisIndex
                       * (1 - ([2, 0, 0, 0, 0, 0 :: real] ! eccentricityIndex)\<^sup>2)))"
proof -
  have len: "length [2, 0, 0, 0, 0, 0 :: real] = 6"
    by simp
  have ret: "convertKeplerianToUnifiedStateModelElements [2, 0, 0, 0, 0, 0] 8
             = Inr [2, 0, 0, 0, 0, 0, 1]"
    by (simp add: convertKeplerianToUnifiedStateModelElements_def Let_def Zero_seven
        keplerianIndices unifiedStateModelIndices PI_def singularityTolerance_def)
  show ?thesis
    using len ret C8_hodograph_elements [OF len ret] by blast
qed

text \<open>
  Claim C6 fails on the code: the function tests only the inclination. With the
  eccentricity \<open>- 1/2\<close> it returns USM elements, with \<open>Rf2 = e C\<close> negative.
\<close>
theorem C6_negative_eccentricity_counterexample:
  "[1, - (1 / 2), 0, 0, 0, 0 :: real] ! eccentricityIndex < 0
   \<and> \<not> isl (convertKeplerianToUnifiedStateModelElements [1, - (1 / 2), 0, 0, 0, 0] 1)
   \<and> convertKeplerianToUnifiedStateModelElements [1, - (1 / 2), 0, 0, 0, 0] 1
       = Inr [sqrt (4 / 3), 0, - (sqrt (4 / 3) / 2), 0, 0, 0, 1]"
proof -
  have ret: "convertKeplerianToUnifiedStateModelElements [1, - (1 / 2), 0, 0, 0, 0] 1
       = Inr [sqrt (4 / 3), 0, - (sqrt (4 / 3) / 2), 0, 0, 0, 1]"
    by (simp add: convertKeplerianToUnifiedStateModelElements_def Let_def Zero_seven
        keplerianIndices unifiedStateModelIndices PI_def singularityTolerance_def)
  then show ?thesis
    by (simp add: eccentricityIndex_def)
qed

text \<open>
  Claim C6, amended. A negative eccentricity is not tested: when the inclination lies in
  \<open>[0, \<pi>]\<close> the function throws nothing and returns the USM elements that its formulas
  give for that eccentricity. The only failure of the function is the one on the
  inclination.
\<close>
theorem C6_negative_eccentricity_is_converted:
  assumes "length k = 6"
    and "k ! eccentricityIndex < 0"
    and "0 \<le> k ! inclinationIndex" and "k ! inclinationIndex \<le> PI"
  shows "convertKeplerianToUnifiedStateModelElements k mu =
     Inr [sqrt (mu / semiLatusRectumOf k),
          - (k ! eccentricityIndex * sqrt (mu / semiLatusRectumOf k))
            * sin (k ! longitudeOfAscendingNodeIndex + k ! argumentOfPeriapsisIndex),
          k ! eccentricityIndex * sqrt (mu / semiLatusRectumOf k)
            * cos (k ! longitudeOfAscendingNodeIndex + k ! argumentOfPeriapsisIndex),
          sin (k ! inclinationIndex / 2)
            * cos ((k ! longitudeOfAscendingNodeIndex - argumentOfLongitudeOf k) / 2),
          sin (k ! inclinationIndex / 2)
            * sin ((k ! longitudeOfAscendingNodeIndex - argumentOfLongitudeOf k) / 2),
          cos (k ! inclinationIndex / 2)
            * sin ((k ! longitudeOfAscendingNodeIndex + argumentOfLongitudeOf k) / 2),
          cos (k ! inclinationIndex / 2)
            * cos ((k ! longitudeOfAscendingNodeIndex + argumentOfLongitudeOf k) / 2)]"
  using assms(3,4) by (rule keplerianToUnifiedStateModel_accepted)

theorem C6_negative_eccentricity_is_converted_witness:
  "length [4, - (1 / 2), 0, 0, 0, 0 :: real] = 6
   \<and> [4, - (1 / 2), 0, 0, 0, 0 :: real] ! eccentricityIndex < 0
   \<and> 0 \<le> [4, - (1 / 2), 0, 0, 0, 0 :: real] ! inclinationIndex
   \<and> [4, - (1 / 2), 0, 0, 0, 0 :: real] ! inclinationIndex \<le> PI
   \<and> convertKeplerianToUnifiedStateModelElements [4, - (1 / 2), 0, 0, 0, 0] 3
       = Inr [1, 0, - (1 / 2), 0, 0, 0, 1]"
proof -
  let ?k = "[4, - (1 / 2), 0, 0, 0, 0 :: real]"
  have len: "length ?k = 6"
    by simp
  have ecc: "?k ! eccentricityIndex < 0"
    by (simp add: eccentricityIndex_def)
  have lo: "0 \<le> ?k ! inclinationIndex"
    by (simp add: inclinationIndex_def)
  have hi: "?k ! inclinationIndex \<le> PI"
    by (simp add: inclinationIndex_def PI_def)
  have p: "semiLatusRectumOf ?k = 3"
    by (simp add: semiLatusRectumOf_def keplerianIndices singularityTolerance_def)
  have vals: "?k ! eccentricityIndex = - (1 / 2)" "?k ! inclinationIndex = 0"
    "?k ! longitudeOfAscendingNodeIndex = 0" "?k ! argumentOfPeriapsisIndex = 0"
    "argumentOfLongitudeOf ?k = 0"
    by (simp_all add: keplerianIndices argumentOfLongitudeOf_def)
  have "convertKeplerianToUnifiedStateModelElements ?k 3 = Inr [1, 0, - (1 / 2), 0, 0, 0, 1]"
    using C6_negative_eccentricity_is_converted [OF len ecc lo hi, of 3]
    unfolding p vals by simp
  with len ecc lo hi show ?thesis
    by blast
qed

text \<open>
  Claim C3 is right and the code is wrong. The USM elements are seven numbers: the
  result is built with \<^verbatim>\<open>Zero( 7 )\<close> and its last coefficient is written at the index of
  \<open>\<eta>\<close>, which is 6, while a \<^verbatim>\<open>Vector6d\<close> has the six coefficients 0 to 5.
\<close>
theorem C3_eta_is_outside_Vector6d:
  "convertKeplerianToUnifiedStateModelElements [1, 0, 0, 0, 0, 0] 1 = Inr [1, 0, 0, 0, 0, 0, 1]
   \<and> length [1, 0, 0, 0, 0, 0, 1 :: real] \<noteq> Vector6d_size
   \<and> length (Zero 7) \<noteq> Vector6d_size
   \<and> \<not> etaQuaternionIndex < Vector6d_size"
  by (simp add: convertKeplerianToUnifiedStateModelElements_def Let_def Zero_seven
      keplerianIndices unifiedStateModelIndices PI_def singularityTolerance_def Vector6d_size_def)

section \<open>USM elements to Keplerian elements: the claims\<close>

text \<open>
  Claim C2 fails on the code: in the pure-retrograde branch the function prints a line on
  \<^verbatim>\<open>std::cerr\<close> and returns the vector of zeros; nothing is thrown.
\<close>
theorem C2_pure_retrograde_counterexample:
  "\<bar>[1, 1 / 2, 0, 0, 1, 0, 0 :: real] ! epsilon3QuaternionIndex\<bar> < singularityTolerance
   \<and> \<bar>[1, 1 / 2, 0, 0, 1, 0, 0 :: real] ! etaQuaternionIndex\<bar> < singularityTolerance
   \<and> \<not> isl (convertUnifiedStateModelToKeplerianElements [1, 1 / 2, 0, 0, 1, 0, 0] 1)
   \<and> convertUnifiedStateModelToKeplerianElements [1, 1 / 2, 0, 0, 1, 0, 0] 1
       = Inr (pureRetrogradeDiagnostic, [0, 0, 0, 0, 0, 0])"
proof -
  have g: "\<bar>[1, 1 / 2, 0, 0, 1, 0, 0 :: real] ! epsilon3QuaternionIndex\<bar> < singularityTolerance"
    "\<bar>[1, 1 / 2, 0, 0, 1, 0, 0 :: real] ! etaQuaternionIndex\<bar> < singularityTolerance"
    by (simp_all add: unifiedStateModelIndices singularityTolerance_def)
  then have "pureRetrograde [1, 1 / 2, 0, 0, 1, 0, 0]"
    by (simp add: pureRetrograde_def)
  then have "convertUnifiedStateModelToKeplerianElements [1, 1 / 2, 0, 0, 1, 0, 0] 1
       = Inr (pureRetrogradeDiagnostic, [0, 0, 0, 0, 0, 0])"
    by (rule unifiedStateModelToKeplerian_singular)
  with g show ?thesis
    by simp
qed

text \<open>
  Claim C2, amended. When \<open>\<epsilon>3\<close> and \<open>\<eta>\<close> are both within the singularity tolerance of
  zero, the function prints the pure-retrograde line on \<^verbatim>\<open>std::cerr\<close> and returns the
  vector of six zeros to its caller; it throws nothing.
\<close>
theorem C2_pure_retrograde_returns_zeros:
  assumes "length u = 7"
    and "\<bar>u ! epsilon3QuaternionIndex\<bar> < singularityTolerance"
    and "\<bar>u ! etaQuaternionIndex\<bar> < singularityTolerance"
  shows "convertUnifiedStateModelToKeplerianElements u mu
         = Inr (pureRetrogradeDiagnostic, [0, 0, 0, 0, 0, 0])"
proof -
  have "pureRetrograde u"
    using assms(2,3) by (simp add: pureRetrograde_def)
  then show ?thesis
    by (rule unifiedStateModelToKeplerian_singular)
qed

theorem C2_pure_retrograde_returns_zeros_witness:
  "length [2, 0, 0, 1, 0, 0, 0 :: real] = 7
   \<and> \<bar>[2, 0, 0, 1, 0, 0, 0 :: real] ! epsilon3QuaternionIndex\<bar> < singularityTolerance
   \<and> \<bar>[2, 0, 0, 1, 0, 0, 0 :: real] ! etaQuaternionIndex\<bar> < singularityTolerance
   \<and> convertUnifiedStateModelToKeplerianElements [2, 0, 0, 1, 0, 0, 0] 3
       = Inr (pureRetrogradeDiagnostic, [0, 0, 0, 0, 0, 0])"
proof -
  have len: "length [2, 0, 0, 1, 0, 0, 0 :: real] = 7"
    by simp
  have e3: "\<bar>[2, 0, 0, 1, 0, 0, 0 :: real] ! epsilon3QuaternionIndex\<bar> < singularityTolerance"
    by (simp add: unifiedStateModelIndices singularityTolerance_def)
  have eta: "\<bar>[2, 0, 0, 1, 0, 0, 0 :: real] ! etaQuaternionIndex\<bar> < singularityTolerance"
    by (simp add: unifiedStateModelIndices singularityTolerance_def)
  from len e3 eta C2_pure_retrograde_returns_zeros [OF len e3 eta, of 3] show ?thesis
    by blast
qed

text \<open>
  Claim C9. Whenever the conversion to Keplerian elements returns Keplerian elements,
  that is, returns without the report of the pure-retrograde branch (which gives up and
  hands back the vector of zeros), the inclination of the result is
  \<open>arccos (1 - 2 (\<epsilon>1\<^sup>2 + \<epsilon>2\<^sup>2))\<close> and, given \<open>\<epsilon>1\<^sup>2 + \<epsilon>2\<^sup>2 \<le> 1\<close>, it lies in \<open>[0, \<pi>]\<close>.
\<close>
theorem C9_inclination_is_arccosine:
  assumes "length u = 7"
    and "convertUnifiedStateModelToKeplerianElements u mu = Inr ([], kep)"
  shows "kep ! inclinationIndex
           = arccos (1 - 2 * ((u ! epsilon1QuaternionIndex)\<^sup>2 + (u ! epsilon2QuaternionIndex)\<^sup>2))
         \<and> ((u ! epsilon1QuaternionIndex)\<^sup>2 + (u ! epsilon2QuaternionIndex)\<^sup>2 \<le> 1
            \<longrightarrow> 0 \<le> kep ! inclinationIndex \<and> kep ! inclinationIndex \<le> pi)"
proof -
  define q where "q = (u ! epsilon1QuaternionIndex)\<^sup>2 + (u ! epsilon2QuaternionIndex)\<^sup>2"
  have "pureRetrogradeDiagnostic \<noteq> []"
    by (simp add: pureRetrogradeDiagnostic_def)
  with unifiedStateModelToKeplerian_cases [OF assms(2)]
  have "kep ! inclinationIndex = inclinationOf u"
    by (auto simp add: inclinationIndex_def)
  then have eq: "kep ! inclinationIndex = arccos (1 - 2 * q)"
    by (simp add: inclinationOf_def q_def power2_eq_square)
  have "0 \<le> q"
    by (simp add: q_def)
  then have "q \<le> 1 \<longrightarrow> 0 \<le> arccos (1 - 2 * q) \<and> arccos (1 - 2 * q) \<le> pi"
    by (auto intro: arccos_lbound arccos_ubound)
  with eq show ?thesis
    unfolding q_def by simp
qed

theorem C9_inclination_is_arccosine_witness:
  "length [1, 0, 1 / 2, 1 / 2, 1 / 2, 1 / 2, 1 / 2 :: real] = 7
   \<and> convertUnifiedStateModelToKeplerianElements [1, 0, 1 / 2, 1 / 2, 1 / 2, 1 / 2, 1 / 2] 1
       = Inr ([], [4 / 3, 1 / 2, pi / 2, pi / 2, 3 * pi / 2, pi / 2])
   \<and> ([1, 0, 1 / 2, 1 / 2, 1 / 2, 1 / 2, 1 / 2 :: real] ! epsilon1QuaternionIndex)\<^sup>2
       + ([1, 0, 1 / 2, 1 / 2, 1 / 2, 1 / 2, 1 / 2 :: real] ! epsilon2QuaternionIndex)\<^sup>2 \<le> 1
   \<and> [4 / 3, 1 / 2, pi / 2, pi / 2, 3 * pi / 2, pi / 2] ! inclinationIndex
       = arccos (1 - 2 * (([1, 0, 1 / 2, 1 / 2, 1 / 2, 1 / 2, 1 / 2 :: real]
                             ! epsilon1QuaternionIndex)\<^sup>2
                          + ([1, 0, 1 / 2, 1 / 2, 1 / 2, 1 / 2, 1 / 2 :: real]
                               ! epsilon2QuaternionIndex)\<^sup>2))
   \<and> 0 \<le> [4 / 3, 1 / 2, pi / 2, pi / 2, 3 * pi / 2, pi / 2] ! inclinationIndex
   \<and> [4 / 3, 1 / 2, pi / 2, pi / 2, 3 * pi / 2, pi / 2] ! inclinationIndex \<le> pi"
proof -
  let ?u = "[1, 0, 1 / 2, 1 / 2, 1 / 2, 1 / 2, 1 / 2 :: real]"
  have len: "length ?u = 7"
    by simp
  have unit: "(?u ! epsilon1QuaternionIndex)\<^sup>2 + (?u ! epsilon2QuaternionIndex)\<^sup>2 \<le> 1"
    by (simp add: unifiedStateModelIndices power2_eq_square)
  from len unit eccentric_example C9_inclination_is_arccosine [OF len eccentric_example]
  show ?thesis
    by blast
qed

text \<open>
  Claim C10 fails on the code. At \<open>C = 1\<close>, \<open>Rf1 = Rf2 = 0\<close> and the unit quaternion
  \<open>(0.28, 0, 0, 0.96)\<close>, in binary64, the quotient under the arccosine of the node is
  \<open>1 + 2\<^sup>-\<^sup>5\<^sup>2\<close>: \<^verbatim>\<open>std::acos\<close> of it is NaN, the loop that follows does not see it, and
  the conversion returns Keplerian elements whose right ascension of the ascending node
  is NaN, which is not in \<open>[0, \<pi>]\<close>. (The true anomaly, \<open>\<lambda>\<close> minus the node, is NaN with
  it.)
\<close>
theorem C10_node_is_not_a_number:
  "nodeCosineInDoubles binary64Arithmetic
     (map (dLit binary64Arithmetic) [1, 0, 0, 28 / 100, 0, 0, 96 / 100])
     = Finite (1 + 1 / 2 ^ 52)
   \<and> convertUnifiedStateModelToKeplerianElementsInDoubles binary64Arithmetic
       (map (dLit binary64Arithmetic) [1, 0, 0, 28 / 100, 0, 0, 96 / 100])
       (dLit binary64Arithmetic 1)
     = Some (Inr ([],
         [sizeInDoubles binary64Arithmetic
            (map (dLit binary64Arithmetic) [1, 0, 0, 28 / 100, 0, 0, 96 / 100])
            (dLit binary64Arithmetic 1),
          eccentricityInDoubles binary64Arithmetic
            (map (dLit binary64Arithmetic) [1, 0, 0, 28 / 100, 0, 0, 96 / 100]),
          inclinationInDoubles binary64Arithmetic
            (map (dLit binary64Arithmetic) [1, 0, 0, 28 / 100, 0, 0, 96 / 100]),
          NaN, Finite 0, NaN]))"
proof -
  let ?B = binary64Arithmetic
  let ?u = "[Finite 1, Finite 0, Finite 0, Finite (1261007895663739 / 4503599627370496),
             Finite 0, Finite 0, Finite (1080863910568919 / 1125899906842624)]"
  have reg: "\<not> pureRetrogradeInDoubles ?B ?u" and np: "\<not> pureProgradeInDoubles ?B ?u"
    by (simp_all add: pureRetrogradeInDoubles_def pureProgradeInDoubles_def
        binary64_tolerance unifiedStateModelIndices)
  have node: "nodeInDoubles ?B ?u = Some NaN"
    using reg np by (simp add: nodeInDoubles_def nan_example_node_cosine binary64_loop_nan)
  have R: "RHodographInDoubles ?B ?u = Finite 0"
    by (simp add: RHodographInDoubles_def unifiedStateModelIndices)
  have circ: "circularInDoubles ?B ?u"
    by (simp add: circularInDoubles_def R binary64_tolerance)
  have sub_nan: "b64Sub x NaN = NaN" for x
    by (cases x) (simp_all add: b64Sub_def)
  have anomaly: "trueAnomalyInDoubles ?B ?u NaN = Some NaN"
    using circ by (simp add: trueAnomalyInDoubles_def sub_nan binary64_loop_nan)
  have periapsis: "periapsisInDoubles ?B ?u NaN NaN = Some (Finite 0)"
    using circ by (simp add: periapsisInDoubles_def)
  have u: "map (dLit ?B) [1, 0, 0, 28 / 100, 0, 0, 96 / 100] = ?u"
    by (rule rounded_quaternion)
  have mu: "dLit ?B 1 = Finite 1"
    by simp
  have "(4503599627370497 / 4503599627370496 :: real) = 1 + 1 / 2 ^ 52"
    by simp
  then show ?thesis
    unfolding u mu
    by (simp add: inDoubles_regular [OF reg] node anomaly periapsis nan_example_node_cosine)
qed

text \<open>
  Claim C4 fails on the code by the width of the tolerance: the loops add \<^verbatim>\<open>2.0 * PI\<close>
  only to an angle below \<^verbatim>\<open>-singularityTolerance\<close>, so a negative angle above it is
  returned as it is. At \<open>C = 1\<close>, \<open>Rf1 = Rf2 = 0\<close> and the quaternion
  \<open>(0, 0, - 2\<^sup>-\<^sup>5\<^sup>3, 1)\<close>, in binary64, the true anomaly of the result is \<open>- 2\<^sup>-\<^sup>5\<^sup>2\<close>.
\<close>
theorem C4_negative_true_anomaly_counterexample:
  "convertUnifiedStateModelToKeplerianElementsInDoubles binary64Arithmetic
     (map (dLit binary64Arithmetic) [1, 0, 0, 0, 0, - (1 / 2 ^ 53), 1])
     (dLit binary64Arithmetic 1)
   = Some (Inr ([], [Finite 1, Finite 0, Finite 0, Finite 0, Finite 0,
                     Finite (- (1 / 2 ^ 52))]))
   \<and> [Finite 1, Finite 0, Finite 0, Finite 0, Finite 0, Finite (- (1 / 2 ^ 52))]
       ! trueAnomalyIndex = Finite (- (1 / 2 ^ 52))
   \<and> \<not> 0 \<le> (- (1 / 2 ^ 52) :: real)"
  using tiny_lambda_in_doubles by (simp add: trueAnomalyIndex_def)

text \<open>
  Claim C4, amended. Whenever the conversion to Keplerian elements returns Keplerian
  elements, in binary64, each angle of the result that is a number (not NaN, which the
  arccosines of the node and of the true anomaly can be) is wrapped up to the tolerance:
  the right ascension of the ascending node lies in \<open>[0, 2 \<pi>)\<close>, and the argument of
  periapsis and the true anomaly lie in \<open>[- singularityTolerance, 2 \<pi>)\<close>, where
  \<^verbatim>\<open>singularityTolerance\<close> is the double \<open>2535301200456459 / 2\<^sup>1\<^sup>0\<^sup>1\<close> of the literal
  \<^verbatim>\<open>1.0e-15\<close>. The conversion returns on every input (lemma \<open>binary64_returns\<close>), so the
  statement is about every USM input.
\<close>
theorem C4_angles_wrapped_up_to_tolerance:
  assumes "length u = 7"
    and "convertUnifiedStateModelToKeplerianElementsInDoubles binary64Arithmetic u mu
           = Some (Inr (cerr, kep))"
  shows "toleranceInDoubles binary64Arithmetic = Finite (2535301200456459 / 2 ^ 101)
         \<and> (\<forall>r. kep ! longitudeOfAscendingNodeIndex = Finite r \<longrightarrow> 0 \<le> r \<and> r < 2 * pi)
         \<and> (\<forall>r. kep ! argumentOfPeriapsisIndex = Finite r
                \<longrightarrow> - (2535301200456459 / 2 ^ 101) \<le> r \<and> r < 2 * pi)
         \<and> (\<forall>r. kep ! trueAnomalyIndex = Finite r
                \<longrightarrow> - (2535301200456459 / 2 ^ 101) \<le> r \<and> r < 2 * pi)"
proof -
  have val: "b64Val d = Some r" if "d = Finite r" for d r
    using that by simp
  from inDoubles_angles [OF binary64_is_doubleArithmetic assms] binary64_tolerance
  show ?thesis
    by (simp add: val)
qed

theorem C4_angles_wrapped_up_to_tolerance_witness:
  "length (map (dLit binary64Arithmetic) [1, 0, 0, 0, 0, - (1 / 2 ^ 53), 1]) = 7
   \<and> convertUnifiedStateModelToKeplerianElementsInDoubles binary64Arithmetic
       (map (dLit binary64Arithmetic) [1, 0, 0, 0, 0, - (1 / 2 ^ 53), 1])
       (dLit binary64Arithmetic 1)
     = Some (Inr ([], [Finite 1, Finite 0, Finite 0, Finite 0, Finite 0,
                       Finite (- (1 / 2 ^ 52))]))
   \<and> (0 \<le> (0::real) \<and> (0::real) < 2 * pi)
   \<and> (- (2535301200456459 / 2 ^ 101) \<le> (0::real) \<and> (0::real) < 2 * pi)
   \<and> (- (2535301200456459 / 2 ^ 101) \<le> (- (1 / 2 ^ 52) :: real)
       \<and> (- (1 / 2 ^ 52) :: real) < 2 * pi)"
proof -
  let ?u = "map (dLit binary64Arithmetic) [1, 0, 0, 0, 0, - (1 / 2 ^ 53), 1]"
  let ?kep = "[Finite 1, Finite 0, Finite 0, Finite 0, Finite 0, Finite (- (1 / 2 ^ 52))]"
  have len: "length ?u = 7"
    by simp
  have run: "convertUnifiedStateModelToKeplerianElementsInDoubles binary64Arithmetic ?u
               (dLit binary64Arithmetic 1) = Some (Inr ([], ?kep))"
    using tiny_lambda_in_doubles by simp
  have fields: "?kep ! longitudeOfAscendingNodeIndex = Finite 0"
    "?kep ! argumentOfPeriapsisIndex = Finite 0"
    "?kep ! trueAnomalyIndex = Finite (- (1 / 2 ^ 52))"
    by (simp_all add: keplerianIndices)
  from len run fields C4_angles_wrapped_up_to_tolerance [OF len run] show ?thesis
    by blast
qed

section \<open>The round trip\<close>

text \<open>
  What the round trip does to the node in general: away from the two degenerate branches
  the cosine that the second function computes is the cosine of the node that the first
  function was given, so a node in \<open>(\<pi>, 2 \<pi>)\<close> comes back reflected to \<open>2 \<pi> - \<Omega>\<close>.
\<close>

lemma scaled_pairs_product:
  fixes S K a b c e :: real
  shows "(S * a * (S * a) + S * b * (S * b)) * (K * c * (K * c) + K * e * (K * e))
         = (S * K)\<^sup>2 * ((a\<^sup>2 + b\<^sup>2) * (c\<^sup>2 + e\<^sup>2))"
  by (simp add: power2_eq_square algebra_simps)

lemma round_trip_node_cosine:
  assumes acc: "convertKeplerianToUnifiedStateModelElements k mu = Inr usm"
    and np: "\<not> purePrograde usm" and nr: "\<not> pureRetrograde usm"
  shows "nodeCosineOf usm = cos (k ! longitudeOfAscendingNodeIndex)"
proof -
  define S where "S = sin (k ! inclinationIndex / 2)"
  define K where "K = cos (k ! inclinationIndex / 2)"
  define d where "d = (k ! longitudeOfAscendingNodeIndex - argumentOfLongitudeOf k) / 2"
  define s where "s = (k ! longitudeOfAscendingNodeIndex + argumentOfLongitudeOf k) / 2"
  have range: "0 \<le> k ! inclinationIndex" "k ! inclinationIndex \<le> PI"
    using keplerianToUnifiedStateModel_returns [OF acc] by simp_all
  have q: "usm ! epsilon1QuaternionIndex = S * cos d"
    "usm ! epsilon2QuaternionIndex = S * sin d"
    "usm ! epsilon3QuaternionIndex = K * sin s"
    "usm ! etaQuaternionIndex = K * cos s"
    using acc unfolding keplerianToUnifiedStateModel_accepted [OF range] S_def K_def d_def s_def
    by (auto simp add: unifiedStateModelIndices)
  have S0: "0 \<le> S"
    unfolding S_def using range pi_gt_zero by (intro sin_ge_zero) (simp_all add: PI_def)
  have K0: "0 \<le> K"
    unfolding K_def using range pi_gt_zero by (intro cos_ge_zero) (simp_all add: PI_def)
  have Sn: "S \<noteq> 0"
    using np tolerance_pos unfolding purePrograde_def q by auto
  have Kn: "K \<noteq> 0"
    using nr tolerance_pos unfolding pureRetrograde_def q by auto
  have "0 < S" and "0 < K"
    using S0 K0 Sn Kn by simp_all
  then have SK: "0 < S * K"
    by (rule mult_pos_pos)
  have sum: "d + s = k ! longitudeOfAscendingNodeIndex"
    unfolding d_def s_def by (simp add: field_simps)
  have num: "S * cos d * (K * cos s) - S * sin d * (K * sin s) = S * K * cos (d + s)"
    by (simp add: cos_add algebra_simps)
  have "(S * cos d * (S * cos d) + S * sin d * (S * sin d))
        * (K * cos s * (K * cos s) + K * sin s * (K * sin s))
        = (S * K)\<^sup>2 * (((cos d)\<^sup>2 + (sin d)\<^sup>2) * ((cos s)\<^sup>2 + (sin s)\<^sup>2))"
    by (rule scaled_pairs_product)
  also have "\<dots> = (S * K)\<^sup>2"
    by simp
  finally have den: "sqrt ((S * cos d * (S * cos d) + S * sin d * (S * sin d))
        * (K * cos s * (K * cos s) + K * sin s * (K * sin s))) = S * K"
    using SK by simp
  have "S * K \<noteq> 0"
    using Sn Kn by simp
  then have "S * K * cos (k ! longitudeOfAscendingNodeIndex) / (S * K)
             = cos (k ! longitudeOfAscendingNodeIndex)"
    by (rule nonzero_mult_div_cancel_left)
  then show ?thesis
    unfolding nodeCosineOf_def q num den sum .
qed

lemma round_trip_node_reflected:
  assumes acc: "convertKeplerianToUnifiedStateModelElements k mu = Inr usm"
    and np: "\<not> purePrograde usm" and nr: "\<not> pureRetrograde usm"
    and ret: "convertUnifiedStateModelToKeplerianElements usm mu = Inr (cerr, kep)"
    and node: "pi < k ! longitudeOfAscendingNodeIndex" "k ! longitudeOfAscendingNodeIndex < 2 * pi"
  shows "kep ! longitudeOfAscendingNodeIndex = 2 * pi - k ! longitudeOfAscendingNodeIndex"
proof -
  from unifiedStateModelToKeplerian_cases [OF ret] nr
  have "kep ! longitudeOfAscendingNodeIndex = nodeOf usm"
    by (auto simp add: longitudeOfAscendingNodeIndex_def)
  also have "\<dots> = arccos (cos (k ! longitudeOfAscendingNodeIndex))"
    using np nr by (simp add: node_unwrapped round_trip_node_cosine [OF acc np nr])
  also have "cos (k ! longitudeOfAscendingNodeIndex)
             = cos (2 * pi - k ! longitudeOfAscendingNodeIndex)"
    by (simp add: cos_diff)
  also have "arccos (cos (2 * pi - k ! longitudeOfAscendingNodeIndex))
             = 2 * pi - k ! longitudeOfAscendingNodeIndex"
    using node by (intro arccos_cos) simp_all
  finally show ?thesis .
qed

text \<open>
  Claim C1 is right and the code is wrong. The node is recovered with an arccosine alone,
  which cannot return an angle above \<open>\<pi>\<close>: the circular polar orbit with the node at
  \<open>3 \<pi> / 2\<close> and the true anomaly \<open>\<pi> / 2\<close> comes back with the node at \<open>\<pi> / 2\<close> and the true
  anomaly \<open>3 \<pi> / 2\<close>.
\<close>
theorem C1_round_trip_loses_node_quadrant:
  "convertKeplerianToUnifiedStateModelElements [1, 0, pi / 2, 3 * pi / 2, 0, pi / 2] 1
     = Inr [1, 0, 0, 0, sqrt 2 / 2, 0, - (sqrt 2 / 2)]
   \<and> convertUnifiedStateModelToKeplerianElements [1, 0, 0, 0, sqrt 2 / 2, 0, - (sqrt 2 / 2)] 1
     = Inr ([], [1, 0, pi / 2, pi / 2, 0, 3 * pi / 2])
   \<and> [1, 0, pi / 2, pi / 2, 0, 3 * pi / 2] ! longitudeOfAscendingNodeIndex
     \<noteq> [1, 0, pi / 2, 3 * pi / 2, 0, pi / 2] ! longitudeOfAscendingNodeIndex
   \<and> [1, 0, pi / 2, pi / 2, 0, 3 * pi / 2] ! trueAnomalyIndex
     \<noteq> [1, 0, pi / 2, 3 * pi / 2, 0, pi / 2] ! trueAnomalyIndex"
proof -
  let ?k = "[1, 0, pi / 2, 3 * pi / 2, 0, pi / 2]"
  let ?u = "[1, 0, 0, 0, sqrt 2 / 2, 0, - (sqrt 2 / 2)]"
  have k: "?k ! semiMajorAxisIndex = 1" "?k ! eccentricityIndex = 0"
    "?k ! inclinationIndex = pi / 2" "?k ! longitudeOfAscendingNodeIndex = 3 * pi / 2"
    "?k ! argumentOfPeriapsisIndex = 0" "?k ! trueAnomalyIndex = pi / 2"
    by (simp_all add: keplerianIndices)
  have range: "0 \<le> ?k ! inclinationIndex" "?k ! inclinationIndex \<le> PI"
    unfolding k by (simp_all add: PI_def)
  have p: "semiLatusRectumOf ?k = 1"
    by (simp add: semiLatusRectumOf_def k singularityTolerance_def)
  have al: "argumentOfLongitudeOf ?k = pi / 2"
    by (simp add: argumentOfLongitudeOf_def k)
  have angles: "(3 * pi / 2 - pi / 2) / 2 = pi / 2" "(3 * pi / 2 + pi / 2) / 2 = pi"
    "pi / 2 / 2 = pi / 4"
    by simp_all
  have forward: "convertKeplerianToUnifiedStateModelElements ?k 1 = Inr ?u"
    unfolding keplerianToUnifiedStateModel_accepted [OF range] p al k angles
    by (simp add: sin_45 cos_45)
  have "1 \<le> sqrt 2" and "singularityTolerance < 1 / 2"
    by (simp_all add: singularityTolerance_def)
  then have big: "\<not> \<bar>sqrt 2 / 2\<bar> < singularityTolerance"
    by linarith
  have reg: "\<not> pureRetrograde ?u" and np: "\<not> purePrograde ?u"
    using big by (simp_all add: pureRetrograde_def purePrograde_def unifiedStateModelIndices)
  have c: "cosineLambdaOf ?u = 1" and s: "sineLambdaOf ?u = 0"
    by (simp_all add: cosineLambdaOf_def sineLambdaOf_def unifiedStateModelIndices)
  have l: "lambdaOf ?u = 0"
    by (simp add: lambdaOf_def c s atan2_def)
  have R: "RHodographOf ?u = 0"
    by (simp add: RHodographOf_def unifiedStateModelIndices)
  have e: "eccentricityOf ?u = 0"
    unfolding eccentricityOf_def R by simp
  have v: "ve1Of ?u = 0" "ve2Of ?u = 1"
    unfolding ve1Of_def ve2Of_def c s by (simp_all add: unifiedStateModelIndices)
  have a: "sizeOf ?u 1 = 1"
    unfolding sizeOf_def e v by (simp add: singularityTolerance_def unifiedStateModelIndices)
  have i: "inclinationOf ?u = pi / 2"
    by (simp add: inclinationOf_def unifiedStateModelIndices)
  have "nodeCosineOf ?u = 0"
    by (simp add: nodeCosineOf_def unifiedStateModelIndices)
  then have n: "nodeOf ?u = pi / 2"
    using reg np by (simp add: node_unwrapped)
  have "- (pi / 2) < - singularityTolerance"
    using tolerance_less_one pi_ge_two by linarith
  then have "ensurePositive (- (pi / 2)) = ensurePositive (- (pi / 2) + 2 * PI)"
    by (rule ensurePositive_step)
  also have "- (pi / 2) + 2 * PI = 3 * pi / 2"
    by (simp add: PI_def)
  also have "ensurePositive (3 * pi / 2) = 3 * pi / 2"
    using tolerance_pos pi_gt_zero by (intro ensurePositive_id) linarith
  finally have t: "trueAnomalyOf ?u = 3 * pi / 2"
    using tolerance_pos unfolding trueAnomalyOf_def R l n by simp
  have w: "periapsisOf ?u = 0"
    using tolerance_pos unfolding periapsisOf_def R by simp
  have backward: "convertUnifiedStateModelToKeplerianElements ?u 1
     = Inr ([], [1, 0, pi / 2, pi / 2, 0, 3 * pi / 2])"
    unfolding unifiedStateModelToKeplerian_regular [OF reg] a e i n w t by (rule refl)
  show ?thesis
    using forward backward pi_gt_zero by (simp add: keplerianIndices)
qed

end
